theory Spec2Isabelle
  imports Main "HOL-Library.Word"
begin

section \<open>Data model of \<^verbatim>\<open>process_base.h\<close>\<close>

text \<open>
  A C++ \<^verbatim>\<open>int\<close> is a 32-bit two's complement integer: a word of 32 bits read by
  \<open>sint\<close>. Addition on it wraps around, which is what the compiled increment of the
  clock does beyond \<^verbatim>\<open>INT_MAX\<close>; \<^verbatim>\<open>std::max\<close> compares the signed values and
  returns its first argument unless it is less than the second.
\<close>

type_synonym int32 = "32 word"

definition INT_MAX :: int where
  "INT_MAX = 2147483647"

definition INT_MIN :: int where
  "INT_MIN = - 2147483648"

definition std_max :: "int32 \<Rightarrow> int32 \<Rightarrow> int32" where
  "std_max a b = (if a <s b then b else a)"

text \<open>
  \<^verbatim>\<open>struct MessageBase\<close> is only forward-declared in the header; what the process
  needs from it is the logical timestamp that \<^verbatim>\<open>setTimestamp\<close> and
  \<^verbatim>\<open>getTimestamp\<close> access. A concrete message type \<^verbatim>\<open>T\<close> extends
  \<^verbatim>\<open>MessageBase\<close>: it is an extension of the record below, its own fields being the
  \<open>more\<close> part of type \<open>'a\<close>.
\<close>

record MessageBase =
  timestamp :: int32

text \<open>The part of \<^verbatim>\<open>mpl::status\<close> the process reads: the actual source and tag.\<close>

record status =
  source :: int
  tag :: int

text \<open>
  The communicator is an external collaborator. Its side of the story is kept as the
  ordered log of the calls the process made on it; what a blocking receive or a probe
  answers is an argument of the operation that asks for it. \<open>Send m r t\<close> is
  \<^verbatim>\<open>communicator.send(m, r, t)\<close>, \<open>SendRange ms r t\<close> the iterator-range overload,
  \<open>Recv r t\<close> and \<open>RecvRange n r t\<close> the two overloads of \<^verbatim>\<open>recv\<close>
  (\<open>n\<close> is the length of the destination range), \<open>Probe r t\<close> is
  \<^verbatim>\<open>communicator.probe(r, t)\<close>.
\<close>

datatype 'm call =
    Send 'm int int
  | SendRange "'m list" int int
  | Recv int int
  | RecvRange nat int int
  | Probe int int

text \<open>
  The members of \<^verbatim>\<open>class ProcessBase\<close>. The clock is a C++ \<^verbatim>\<open>int\<close>, as the
  timestamp of a message is. The buffer owns every message it points
  to exclusively (\<^verbatim>\<open>new\<close> on store, \<^verbatim>\<open>delete\<close> after the fetch), so an owned
  object is represented by its value and an entry is identified by its position in the
  list. A derived process class extends the record. The diagnostic label and
  \<^verbatim>\<open>log\<close> are left out.
\<close>

record 'a ProcessBase =
  lamportClock :: int32
  communicator :: "'a MessageBase_scheme call list"
  broadcastScope :: "int list"
  messageBuffer :: "('a MessageBase_scheme \<times> status) list"
  rank :: int

text \<open>
  Constants of the MPI layer: \<^verbatim>\<open>mpl::any_source\<close> and \<^verbatim>\<open>mpl::undefined\<close> are
  \<^verbatim>\<open>MPI_ANY_SOURCE\<close> and \<^verbatim>\<open>MPI_UNDEFINED\<close> (the values of Open MPI are used;
  both are negative in Open MPI and in MPICH), \<^verbatim>\<open>EXIT_FAILURE\<close> is 1.
\<close>

definition mpl_any_source :: int where
  "mpl_any_source = - 1"

definition mpl_undefined :: int where
  "mpl_undefined = - 32766"

definition EXIT_FAILURE :: int where
  "EXIT_FAILURE = 1"

section \<open>Private helpers declared in the header\<close>

text \<open>
  Modelled from the spec: the body of \<^verbatim>\<open>setTimestamp\<close> is not in the header. The
  spec has it write the current clock value into the message's timestamp field; the
  declaration is \<^verbatim>\<open>const\<close>, so it cannot change the clock itself.
\<close>

definition setTimestamp ::
  "('a, 'b) ProcessBase_scheme \<Rightarrow> 'a MessageBase_scheme \<Rightarrow> 'a MessageBase_scheme" where
  "setTimestamp p message = message\<lparr>timestamp := lamportClock p\<rparr>"

text \<open>
  Modelled from the spec: the body of \<^verbatim>\<open>getTimestamp\<close> is not in the header. It
  reads the message's timestamp.
\<close>

definition getTimestamp ::
  "('a, 'b) ProcessBase_scheme \<Rightarrow> 'a MessageBase_scheme \<Rightarrow> int32" where
  "getTimestamp p message = timestamp message"

text \<open>
  Modelled from the spec: the body of \<^verbatim>\<open>storeInBuffer\<close> is not in the header. The
  spec's \<open>store\<close> appends the owned message and its metadata to the end of the holding
  area.
\<close>

definition storeInBuffer ::
  "('a, 'b) ProcessBase_scheme \<Rightarrow> 'a MessageBase_scheme \<Rightarrow> status
     \<Rightarrow> ('a, 'b) ProcessBase_scheme" where
  "storeInBuffer p message st = p\<lparr>messageBuffer := messageBuffer p @ [(message, st)]\<rparr>"

text \<open>
  Modelled from the spec: the body of \<^verbatim>\<open>fetchFromBuffer\<close> is not in the header,
  and this is the test its scan applies to an entry. In the spec's \<open>fetch\<close> an entry
  matches when its source rank equals the source filter, or the filter is the wildcard,
  and its tag is a member of the tag set.
\<close>

definition matchesFilter :: "int \<Rightarrow> int list \<Rightarrow> 'm \<times> status \<Rightarrow> bool" where
  "matchesFilter sourceRank tags e =
     ((sourceRank = mpl_any_source \<or> source (snd e) = sourceRank) \<and> tag (snd e) \<in> set tags)"

text \<open>
  Modelled from the spec: the scan of \<^verbatim>\<open>fetchFromBuffer\<close>, whose body is not in the
  header. The spec's \<open>fetch\<close> scans the holding area in insertion order and removes the
  first matching entry. The result is that entry, or \<open>None\<close> for not-found, and the
  holding area after the scan.
\<close>

fun fetchScan ::
  "('m \<times> status) list \<Rightarrow> int \<Rightarrow> int list \<Rightarrow> ('m \<times> status) option \<times> ('m \<times> status) list" where
  "fetchScan [] sourceRank tags = (None, [])"
| "fetchScan (e # es) sourceRank tags =
     (if matchesFilter sourceRank tags e then (Some e, es)
      else (case fetchScan es sourceRank tags of (found, es') \<Rightarrow> (found, e # es')))"

text \<open>
  Modelled from the spec: the body of \<^verbatim>\<open>fetchFromBuffer\<close> is not in the header. The
  spec's \<open>fetch\<close> returns the removed entry's message and metadata, or signals
  not-found (the null pointer of the declaration, \<open>None\<close> here); the metadata is what
  the declaration's \<^verbatim>\<open>status\<close> reference receives. The process after the call is
  returned on both paths.
\<close>

definition fetchFromBuffer ::
  "('a, 'b) ProcessBase_scheme \<Rightarrow> int \<Rightarrow> int list
     \<Rightarrow> ('a, 'b) ProcessBase_scheme \<times> ('a MessageBase_scheme \<times> status) option" where
  "fetchFromBuffer p sourceRank tags =
     (case fetchScan (messageBuffer p) sourceRank tags of
        (found, buf) \<Rightarrow> (p\<lparr>messageBuffer := buf\<rparr>, found))"

section \<open>Sending\<close>

text \<open>
  Every operation takes the process and returns it updated; an operation that writes
  through a reference parameter returns the new value of that parameter as well. The
  parameter \<^verbatim>\<open>tag\<close> of the source is \<open>tg\<close> here, \<open>tag\<close> being the accessor
  of a status.
\<close>

definition send ::
  "('a, 'b) ProcessBase_scheme \<Rightarrow> 'a MessageBase_scheme \<Rightarrow> int \<Rightarrow> int
     \<Rightarrow> ('a, 'b) ProcessBase_scheme \<times> 'a MessageBase_scheme" where
  "send p message recipientRank tg =
     (let p1 = p\<lparr>lamportClock := lamportClock p + 1\<rparr>;
          message1 = setTimestamp p1 message;
          p2 = p1\<lparr>communicator := communicator p1 @ [Send message1 recipientRank tg]\<rparr>
      in (p2, message1))"

text \<open>The range-for over \<^verbatim>\<open>broadcastScope\<close>, with its \<^verbatim>\<open>continue\<close> on the own rank.\<close>

fun broadcastLoop ::
  "('a, 'b) ProcessBase_scheme \<Rightarrow> int list \<Rightarrow> (int \<Rightarrow> 'a MessageBase_scheme call)
     \<Rightarrow> ('a, 'b) ProcessBase_scheme" where
  "broadcastLoop p [] sendTo = p"
| "broadcastLoop p (recipientRank # rest) sendTo =
     (if recipientRank = rank p then broadcastLoop p rest sendTo
      else broadcastLoop
             (p\<lparr>communicator := communicator p @ [sendTo recipientRank]\<rparr>) rest sendTo)"

definition broadcast ::
  "('a, 'b) ProcessBase_scheme \<Rightarrow> 'a MessageBase_scheme \<Rightarrow> int
     \<Rightarrow> ('a, 'b) ProcessBase_scheme \<times> 'a MessageBase_scheme" where
  "broadcast p message tg =
     (let p1 = p\<lparr>lamportClock := lamportClock p + 1\<rparr>;
          message1 = setTimestamp p1 message;
          p2 = broadcastLoop p1 (broadcastScope p1) (\<lambda>recipientRank. Send message1 recipientRank tg)
      in (p2, message1))"

text \<open>The index loop that stamps every element of a batch in place.\<close>

fun setTimestamps ::
  "('a, 'b) ProcessBase_scheme \<Rightarrow> 'a MessageBase_scheme list \<Rightarrow> 'a MessageBase_scheme list" where
  "setTimestamps p [] = []"
| "setTimestamps p (m # ms) = setTimestamp p m # setTimestamps p ms"

definition sendVector ::
  "('a, 'b) ProcessBase_scheme \<Rightarrow> 'a MessageBase_scheme list \<Rightarrow> int \<Rightarrow> int
     \<Rightarrow> ('a, 'b) ProcessBase_scheme \<times> 'a MessageBase_scheme list" where
  "sendVector p message recipientRank tg =
     (let p1 = p\<lparr>lamportClock := lamportClock p + 1\<rparr>;
          message1 = setTimestamps p1 message;
          p2 = p1\<lparr>communicator := communicator p1 @ [SendRange message1 recipientRank tg]\<rparr>
      in (p2, message1))"

definition broadcastVector ::
  "('a, 'b) ProcessBase_scheme \<Rightarrow> 'a MessageBase_scheme list \<Rightarrow> int
     \<Rightarrow> ('a, 'b) ProcessBase_scheme \<times> 'a MessageBase_scheme list" where
  "broadcastVector p message tg =
     (let p1 = p\<lparr>lamportClock := lamportClock p + 1\<rparr>;
          message1 = setTimestamps p1 message;
          p2 = broadcastLoop p1 (broadcastScope p1)
                 (\<lambda>recipientRank. SendRange message1 recipientRank tg)
      in (p2, message1))"

section \<open>Receiving\<close>

text \<open>
  \<open>incoming\<close> is what the blocking \<^verbatim>\<open>communicator.recv\<close> delivers if it is called:
  the message written into the destination and the status returned. The destination
  \<open>message\<close> is overwritten as a whole on both paths.
\<close>

definition receive ::
  "('a, 'b) ProcessBase_scheme \<Rightarrow> 'a MessageBase_scheme
     \<Rightarrow> 'a MessageBase_scheme \<times> status \<Rightarrow> int \<Rightarrow> int
     \<Rightarrow> ('a, 'b) ProcessBase_scheme \<times> 'a MessageBase_scheme \<times> status" where
  "receive p message incoming sourceRank tg =
     (let (p1, message1, st) =
            (case fetchFromBuffer p sourceRank [tg] of
               (p', Some (bufferedMessage, st')) \<Rightarrow> (p', bufferedMessage, st')
             | (p', None) \<Rightarrow>
                 (p'\<lparr>communicator := communicator p' @ [Recv sourceRank tg]\<rparr>,
                  fst incoming, snd incoming));
          ts = getTimestamp p1 message1;
          p2 = p1\<lparr>lamportClock := std_max (lamportClock p1) ts + 1\<rparr>
      in (p2, message1, st))"

definition receiveAny ::
  "('a, 'b) ProcessBase_scheme \<Rightarrow> 'a MessageBase_scheme
     \<Rightarrow> 'a MessageBase_scheme \<times> status \<Rightarrow> int
     \<Rightarrow> ('a, 'b) ProcessBase_scheme \<times> 'a MessageBase_scheme \<times> status" where
  "receiveAny p message incoming tg = receive p message incoming mpl_any_source tg"

text \<open>
  How a call ends: \<open>Returned\<close> with its results, \<open>Exited\<close> through \<^verbatim>\<open>exit\<close> with
  the exit status, or \<open>Thrown\<close> by an exception nobody catches. The last two carry the
  process and the destination as they are at that moment.
\<close>

datatype ('s, 'r) outcome = Exited int 's | Thrown 's | Returned 'r

text \<open>
  \<^verbatim>\<open>std::vector::resize\<close>, with the value-initialised \<^verbatim>\<open>T\<close> as \<open>dflt\<close>, and the
  transport writing a delivered batch into the range \<^verbatim>\<open>[begin, end)\<close>: it fills the
  range from the front and never writes past its end.
\<close>

definition resize :: "'m list \<Rightarrow> nat \<Rightarrow> 'm \<Rightarrow> 'm list" where
  "resize xs n dflt = take n xs @ replicate (n - length xs) dflt"

definition recvRange :: "'m list \<Rightarrow> 'm list \<Rightarrow> 'm list" where
  "recvRange dest delivered = take (length dest) delivered @ drop (length delivered) dest"

text \<open>
  \<open>sz\<close> is what \<^verbatim>\<open>probe.get_count<T>()\<close> answers (the source calls it
  \<^verbatim>\<open>size\<close>), \<open>dflt\<close> the value-initialised \<^verbatim>\<open>T\<close>. A negative \<open>sz\<close> other than
  \<^verbatim>\<open>mpl::undefined\<close> converts to a \<^verbatim>\<open>size_t\<close> beyond \<^verbatim>\<open>max_size()\<close>, and
  \<^verbatim>\<open>resize\<close> throws \<^verbatim>\<open>std::length_error\<close>. In the last branch \<open>0 < sz\<close>, so
  \<^verbatim>\<open>message[0]\<close> exists.
\<close>

definition receiveVector ::
  "('a, 'b) ProcessBase_scheme \<Rightarrow> 'a MessageBase_scheme list \<Rightarrow> 'a MessageBase_scheme \<Rightarrow> int
     \<Rightarrow> 'a MessageBase_scheme list \<times> status \<Rightarrow> int \<Rightarrow> int
     \<Rightarrow> (('a, 'b) ProcessBase_scheme \<times> 'a MessageBase_scheme list,
         ('a, 'b) ProcessBase_scheme \<times> 'a MessageBase_scheme list \<times> status) outcome" where
  "receiveVector p message dflt sz incoming sourceRank tg =
     (let p1 = p\<lparr>communicator := communicator p @ [Probe sourceRank tg]\<rparr> in
      if sz = mpl_undefined \<or> sz = 0 then Exited EXIT_FAILURE (p1, message)
      else if sz < 0 then Thrown (p1, message)
      else
        (let message1 = resize message (nat sz) dflt;
             p2 = p1\<lparr>communicator :=
                       communicator p1 @ [RecvRange (length message1) sourceRank tg]\<rparr>;
             message2 = recvRange message1 (fst incoming);
             ts = getTimestamp p2 (message2 ! 0);
             p3 = p2\<lparr>lamportClock := std_max (lamportClock p2) ts + 1\<rparr>
         in Returned (p3, message2, snd incoming)))"

definition receiveVectorAny ::
  "('a, 'b) ProcessBase_scheme \<Rightarrow> 'a MessageBase_scheme list \<Rightarrow> 'a MessageBase_scheme \<Rightarrow> int
     \<Rightarrow> 'a MessageBase_scheme list \<times> status \<Rightarrow> int
     \<Rightarrow> (('a, 'b) ProcessBase_scheme \<times> 'a MessageBase_scheme list,
         ('a, 'b) ProcessBase_scheme \<times> 'a MessageBase_scheme list \<times> status) outcome" where
  "receiveVectorAny p message dflt sz incoming tg =
     receiveVector p message dflt sz incoming mpl_any_source tg"

section \<open>Multi-tag dispatch\<close>

text \<open>
  A handler is a \<^verbatim>\<open>std::function<void(const MessageBase*, const mpl::status&)>\<close>.
  It returns nothing, so all it does is an effect: on the process that registered it
  (its members and those of the derived class). The handler table is the
  \<^verbatim>\<open>unordered_map\<close> from tag to handler.
\<close>

type_synonym ('a, 'b) handler =
  "'a MessageBase_scheme \<Rightarrow> status \<Rightarrow> ('a, 'b) ProcessBase_scheme \<Rightarrow> ('a, 'b) ProcessBase_scheme"

definition receiveMultiTagHandle ::
  "('a, 'b) ProcessBase_scheme \<Rightarrow> 'a MessageBase_scheme \<times> status \<Rightarrow> int \<Rightarrow> int
     \<Rightarrow> (int \<rightharpoonup> ('a, 'b) handler) \<Rightarrow> ('a, 'b) ProcessBase_scheme \<times> bool" where
  "receiveMultiTagHandle p incoming sourceRank tg messageHandlers =
     (let message = fst incoming;
          st = snd incoming;
          p1 = p\<lparr>communicator := communicator p @ [Recv sourceRank tg]\<rparr>
      in case messageHandlers (tag st) of
           Some handler \<Rightarrow>
             (let ts = getTimestamp p1 message;
                  p2 = p1\<lparr>lamportClock := std_max (lamportClock p1) ts + 1\<rparr>
              in (handler message st p2, True))
         | None \<Rightarrow> (storeInBuffer p1 message st, False))"

section \<open>Sequences of clock events\<close>

text \<open>
  The local events that touch the clock, each with the arguments of its call, and a
  run of the process through a list of them. A run ends early when
  \<^verbatim>\<open>receiveVector\<close> does not return.
\<close>

datatype 'a event =
    SendEv "'a MessageBase_scheme" int int
  | BroadcastEv "'a MessageBase_scheme" int
  | SendVectorEv "'a MessageBase_scheme list" int int
  | BroadcastVectorEv "'a MessageBase_scheme list" int
  | ReceiveEv "'a MessageBase_scheme" "'a MessageBase_scheme \<times> status" int int
  | ReceiveAnyEv "'a MessageBase_scheme" "'a MessageBase_scheme \<times> status" int
  | ReceiveVectorEv "'a MessageBase_scheme list" "'a MessageBase_scheme" int
      "'a MessageBase_scheme list \<times> status" int int
  | ReceiveVectorAnyEv "'a MessageBase_scheme list" "'a MessageBase_scheme" int
      "'a MessageBase_scheme list \<times> status" int

fun returnedProcess :: "('s, 'p \<times> 'r) outcome \<Rightarrow> 'p option" where
  "returnedProcess (Returned (p, r)) = Some p"
| "returnedProcess (Exited code s) = None"
| "returnedProcess (Thrown s) = None"

fun step :: "('a, 'b) ProcessBase_scheme \<Rightarrow> 'a event \<Rightarrow> ('a, 'b) ProcessBase_scheme option" where
  "step p (SendEv m r t) = Some (fst (send p m r t))"
| "step p (BroadcastEv m t) = Some (fst (broadcast p m t))"
| "step p (SendVectorEv ms r t) = Some (fst (sendVector p ms r t))"
| "step p (BroadcastVectorEv ms t) = Some (fst (broadcastVector p ms t))"
| "step p (ReceiveEv d inc r t) = Some (fst (receive p d inc r t))"
| "step p (ReceiveAnyEv d inc t) = Some (fst (receiveAny p d inc t))"
| "step p (ReceiveVectorEv d dflt sz inc r t) =
     returnedProcess (receiveVector p d dflt sz inc r t)"
| "step p (ReceiveVectorAnyEv d dflt sz inc t) =
     returnedProcess (receiveVectorAny p d dflt sz inc t)"

fun run :: "('a, 'b) ProcessBase_scheme \<Rightarrow> 'a event list \<Rightarrow> ('a, 'b) ProcessBase_scheme list" where
  "run p [] = []"
| "run p (e # es) = (case step p e of None \<Rightarrow> [] | Some p' \<Rightarrow> p' # run p' es)"

section \<open>Example data\<close>

text \<open>
  A message type with one field of its own, a process of rank 5 whose broadcast scope
  is \<open>{2, 5, 7}\<close>, and a derived process class that counts the calls of its handler.
\<close>

record Memo = MessageBase +
  body :: nat

definition memo :: "int32 \<Rightarrow> nat \<Rightarrow> Memo" where
  "memo ts b = \<lparr>timestamp = ts, body = b\<rparr>"

definition delivery :: "int \<Rightarrow> int \<Rightarrow> status" where
  "delivery r t = \<lparr>source = r, tag = t\<rparr>"

definition proc5 :: "unit Memo_ext ProcessBase" where
  "proc5 = \<lparr>lamportClock = 4, communicator = [], broadcastScope = [2, 5, 7],
            messageBuffer = [], rank = 5\<rparr>"

record 'a Counting = "'a ProcessBase" +
  handled :: nat

definition counting5 :: "unit Memo_ext Counting" where
  "counting5 = \<lparr>lamportClock = 4, communicator = [], broadcastScope = [2, 5, 7],
                messageBuffer = [], rank = 5, handled = 0\<rparr>"

definition countHandler :: "(unit Memo_ext, unit Counting_ext) handler" where
  "countHandler m st p = p\<lparr>handled := handled p + 1\<rparr>"

section \<open>Facts about the helpers\<close>

lemma setTimestamps_map:
  "setTimestamps p ms = map (\<lambda>m. m\<lparr>timestamp := lamportClock p\<rparr>) ms"
  by (induction ms) (simp_all add: setTimestamp_def)

lemma broadcastLoop_eq:
  "broadcastLoop p rs f =
     p\<lparr>communicator := communicator p @ map f (filter (\<lambda>r. r \<noteq> rank p) rs)\<rparr>"
  by (induction rs arbitrary: p) simp_all

lemma fetchScan_miss:
  "\<forall>x\<in>set buf. \<not> matchesFilter src tags x \<Longrightarrow> fetchScan buf src tags = (None, buf)"
  by (induction buf) simp_all

lemma fetchScan_hit:
  "\<forall>x\<in>set xs. \<not> matchesFilter src tags x \<Longrightarrow> matchesFilter src tags e
     \<Longrightarrow> fetchScan (xs @ e # ys) src tags = (Some e, xs @ ys)"
  by (induction xs) simp_all

lemma fetchScan_find: "fst (fetchScan buf src tags) = find (matchesFilter src tags) buf"
  by (induction buf) (auto split: prod.splits)

lemma fetchFromBuffer_miss:
  "\<forall>x\<in>set (messageBuffer p). \<not> matchesFilter src tags x
     \<Longrightarrow> fetchFromBuffer p src tags = (p, None)"
  by (simp add: fetchFromBuffer_def fetchScan_miss)

lemma fetchFromBuffer_hit:
  "messageBuffer p = xs @ e # ys \<Longrightarrow> \<forall>x\<in>set xs. \<not> matchesFilter src tags x
     \<Longrightarrow> matchesFilter src tags e
     \<Longrightarrow> fetchFromBuffer p src tags = (p\<lparr>messageBuffer := xs @ ys\<rparr>, Some e)"
  by (simp add: fetchFromBuffer_def fetchScan_hit)

lemma fetchFromBuffer_fst:
  "fst (fetchFromBuffer p src tags) =
     p\<lparr>messageBuffer := snd (fetchScan (messageBuffer p) src tags)\<rparr>"
  by (simp add: fetchFromBuffer_def split: prod.splits)

section \<open>The clock after each operation\<close>

lemma send_eq:
  "send p m r t =
     (p\<lparr>lamportClock := lamportClock p + 1,
        communicator := communicator p @ [Send (m\<lparr>timestamp := lamportClock p + 1\<rparr>) r t]\<rparr>,
      m\<lparr>timestamp := lamportClock p + 1\<rparr>)"
  by (simp add: send_def setTimestamp_def Let_def)

lemma broadcast_eq:
  "broadcast p m t =
     (p\<lparr>lamportClock := lamportClock p + 1,
        communicator := communicator p @
          map (\<lambda>r. Send (m\<lparr>timestamp := lamportClock p + 1\<rparr>) r t)
            (filter (\<lambda>r. r \<noteq> rank p) (broadcastScope p))\<rparr>,
      m\<lparr>timestamp := lamportClock p + 1\<rparr>)"
  by (simp add: broadcast_def setTimestamp_def broadcastLoop_eq Let_def)

lemma sendVector_eq:
  "sendVector p ms r t =
     (p\<lparr>lamportClock := lamportClock p + 1,
        communicator := communicator p @
          [SendRange (map (\<lambda>m. m\<lparr>timestamp := lamportClock p + 1\<rparr>) ms) r t]\<rparr>,
      map (\<lambda>m. m\<lparr>timestamp := lamportClock p + 1\<rparr>) ms)"
  by (simp add: sendVector_def setTimestamps_map Let_def)

lemma broadcastVector_eq:
  "broadcastVector p ms t =
     (p\<lparr>lamportClock := lamportClock p + 1,
        communicator := communicator p @
          map (\<lambda>r. SendRange (map (\<lambda>m. m\<lparr>timestamp := lamportClock p + 1\<rparr>) ms) r t)
            (filter (\<lambda>r. r \<noteq> rank p) (broadcastScope p))\<rparr>,
      map (\<lambda>m. m\<lparr>timestamp := lamportClock p + 1\<rparr>) ms)"
  by (simp add: broadcastVector_def setTimestamps_map broadcastLoop_eq Let_def)

lemma receive_clock:
  "lamportClock (fst (receive p d inc r t)) =
     std_max (lamportClock p) (timestamp (fst (snd (receive p d inc r t)))) + 1"
proof -
  obtain p' found where f: "fetchFromBuffer p r [t] = (p', found)"
    by (cases "fetchFromBuffer p r [t]")
  have "p' = fst (fetchFromBuffer p r [t])"
    using f by simp
  then have c: "lamportClock p' = lamportClock p"
    by (simp add: fetchFromBuffer_fst)
  show ?thesis
    using f c by (cases found) (auto simp: receive_def getTimestamp_def split: prod.splits)
qed

lemma receiveVector_clock:
  assumes "receiveVector p d dflt sz inc r t = Returned (p', ms', st)"
  shows "lamportClock p' = std_max (lamportClock p) (timestamp (ms' ! 0)) + 1"
  using assms
  by (auto simp: receiveVector_def getTimestamp_def Let_def split: if_splits)

lemma receiveVector_fatal:
  "sz = mpl_undefined \<or> sz = 0 \<Longrightarrow>
     receiveVector p d dflt sz inc r t =
       Exited EXIT_FAILURE (p\<lparr>communicator := communicator p @ [Probe r t]\<rparr>, d)"
  by (simp add: receiveVector_def)

lemma length_resize: "length (resize xs n dflt) = n"
  by (simp add: resize_def)

lemma length_recvRange: "length (recvRange dest delivered) = length dest"
  by (simp add: recvRange_def)

lemma recvRange_exact: "length delivered = length dest \<Longrightarrow> recvRange dest delivered = delivered"
  by (simp add: recvRange_def)

lemma mpl_undefined_negative: "mpl_undefined < 0"
  by (simp add: mpl_undefined_def)

lemma receiveVector_returns:
  assumes "0 < sz"
  shows "receiveVector p d dflt sz inc r t =
     Returned
       (p\<lparr>communicator := communicator p @ [Probe r t, RecvRange (nat sz) r t],
          lamportClock :=
            std_max (lamportClock p)
              (timestamp (recvRange (resize d (nat sz) dflt) (fst inc) ! 0)) + 1\<rparr>,
        recvRange (resize d (nat sz) dflt) (fst inc), snd inc)"
proof -
  have "sz \<noteq> mpl_undefined" "sz \<noteq> 0" "\<not> sz < 0"
    using assms mpl_undefined_negative by auto
  then show ?thesis
    by (simp add: receiveVector_def Let_def getTimestamp_def length_resize)
qed

section \<open>The clock as an integer\<close>

lemma sint_std_max: "sint (std_max a b) = max (sint a) (sint b)"
  by (simp add: std_max_def word_sless_alt max_def)

lemma sint_succ:
  fixes c :: int32
  assumes "sint c < INT_MAX"
  shows "sint (c + 1) = sint c + 1"
proof -
  have lo: "- (2 ^ 31) \<le> sint c"
    using sint_ge [of c] by simp
  have "sint (c + 1) = signed_take_bit 31 (sint c + 1)"
    by (simp add: sint_word_ariths)
  also have "\<dots> = sint c + 1"
    using assms lo by (intro signed_take_bit_int_eq_self) (simp_all add: INT_MAX_def)
  finally show ?thesis .
qed

lemma sint_bounds:
  fixes c :: int32
  shows "INT_MIN \<le> sint c" and "sint c \<le> INT_MAX"
  using sint_ge [of c] sint_lt [of c] by (simp_all add: INT_MIN_def INT_MAX_def)

lemma sint_succ_wraps:
  fixes c :: int32
  assumes "sint c = INT_MAX"
  shows "sint (c + 1) = INT_MIN"
proof -
  have "c = 2147483647"
    using assms by (intro signed_word_eqI) (simp add: INT_MAX_def)
  then show ?thesis
    by (simp add: INT_MIN_def)
qed

lemma increases_iff:
  fixes c v :: int32
  assumes "sint c \<le> sint v"
  shows "(sint c < sint (v + 1)) = (sint (v + 1) \<noteq> INT_MIN)"
proof (cases "sint v < INT_MAX")
  case True
  then have "sint (v + 1) = sint v + 1"
    by (rule sint_succ)
  then show ?thesis
    using assms sint_bounds(1) [of v] by simp
next
  case False
  then have "sint v = INT_MAX"
    using sint_bounds(2) [of v] by simp
  then have "sint (v + 1) = INT_MIN"
    by (rule sint_succ_wraps)
  then show ?thesis
    using sint_bounds(1) [of c] by simp
qed

text \<open>Every event sets the clock to one more than a value that is not below it.\<close>

lemma step_form:
  assumes "step p e = Some p'"
  shows "\<exists>v. sint (lamportClock p) \<le> sint v \<and> lamportClock p' = v + 1"
proof (cases e)
  case (SendEv m r t)
  then have "lamportClock p' = lamportClock p + 1"
    using assms by (auto simp: send_eq)
  then show ?thesis by blast
next
  case (BroadcastEv m t)
  then have "lamportClock p' = lamportClock p + 1"
    using assms by (auto simp: broadcast_eq)
  then show ?thesis by blast
next
  case (SendVectorEv ms r t)
  then have "lamportClock p' = lamportClock p + 1"
    using assms by (auto simp: sendVector_eq)
  then show ?thesis by blast
next
  case (BroadcastVectorEv ms t)
  then have "lamportClock p' = lamportClock p + 1"
    using assms by (auto simp: broadcastVector_eq)
  then show ?thesis by blast
next
  case (ReceiveEv d inc r t)
  then have "lamportClock p' =
      std_max (lamportClock p) (timestamp (fst (snd (receive p d inc r t)))) + 1"
    using assms receive_clock [of p d inc r t] by auto
  moreover have "sint (lamportClock p) \<le>
      sint (std_max (lamportClock p) (timestamp (fst (snd (receive p d inc r t)))))"
    by (simp add: sint_std_max)
  ultimately show ?thesis by blast
next
  case (ReceiveAnyEv d inc t)
  then have "lamportClock p' =
      std_max (lamportClock p)
        (timestamp (fst (snd (receive p d inc mpl_any_source t)))) + 1"
    using assms receive_clock [of p d inc mpl_any_source t] by (auto simp: receiveAny_def)
  moreover have "sint (lamportClock p) \<le>
      sint (std_max (lamportClock p)
              (timestamp (fst (snd (receive p d inc mpl_any_source t)))))"
    by (simp add: sint_std_max)
  ultimately show ?thesis by blast
next
  case (ReceiveVectorEv d dflt sz inc r t)
  then obtain ms' st where "receiveVector p d dflt sz inc r t = Returned (p', ms', st)"
    using assms by (cases "receiveVector p d dflt sz inc r t") auto
  then have "lamportClock p' = std_max (lamportClock p) (timestamp (ms' ! 0)) + 1"
    by (rule receiveVector_clock)
  moreover have "sint (lamportClock p) \<le>
      sint (std_max (lamportClock p) (timestamp (ms' ! 0)))"
    by (simp add: sint_std_max)
  ultimately show ?thesis by blast
next
  case (ReceiveVectorAnyEv d dflt sz inc t)
  then obtain ms' st where
    "receiveVector p d dflt sz inc mpl_any_source t = Returned (p', ms', st)"
    using assms
    by (cases "receiveVector p d dflt sz inc mpl_any_source t")
       (auto simp: receiveVectorAny_def)
  then have "lamportClock p' = std_max (lamportClock p) (timestamp (ms' ! 0)) + 1"
    by (rule receiveVector_clock)
  moreover have "sint (lamportClock p) \<le>
      sint (std_max (lamportClock p) (timestamp (ms' ! 0)))"
    by (simp add: sint_std_max)
  ultimately show ?thesis by blast
qed

lemma step_increases_iff:
  assumes "step p e = Some p'"
  shows "(sint (lamportClock p) < sint (lamportClock p')) = (sint (lamportClock p') \<noteq> INT_MIN)"
proof -
  obtain v where "sint (lamportClock p) \<le> sint v" and "lamportClock p' = v + 1"
    using step_form [OF assms] by blast
  then show ?thesis
    using increases_iff [of "lamportClock p" v] by simp
qed

lemma run_above:
  "\<forall>q\<in>set (run p es). sint (lamportClock q) \<noteq> INT_MIN \<Longrightarrow> q \<in> set (run p es)
     \<Longrightarrow> sint (lamportClock p) < sint (lamportClock q)"
proof (induction es arbitrary: p)
  case Nil
  then show ?case by simp
next
  case (Cons e es)
  show ?case
  proof (cases "step p e")
    case None
    with Cons.prems show ?thesis by simp
  next
    case (Some p')
    have all: "\<forall>q\<in>set (p' # run p' es). sint (lamportClock q) \<noteq> INT_MIN"
      using Cons.prems(1) Some by simp
    then have "sint (lamportClock p') \<noteq> INT_MIN"
      by simp
    then have lt: "sint (lamportClock p) < sint (lamportClock p')"
      using step_increases_iff [OF Some] by simp
    from Cons.prems(2) Some have "q = p' \<or> q \<in> set (run p' es)"
      by simp
    then show ?thesis
    proof
      assume "q = p'"
      with lt show ?thesis by simp
    next
      assume "q \<in> set (run p' es)"
      then have "sint (lamportClock p') < sint (lamportClock q)"
        using Cons.IH [of p'] all by simp
      with lt show ?thesis by simp
    qed
  qed
qed

lemma run_sorted:
  "\<forall>q\<in>set (run p es). sint (lamportClock q) \<noteq> INT_MIN
     \<Longrightarrow> sorted_wrt (<) (map (\<lambda>q. sint (lamportClock q)) (p # run p es))"
proof (induction es arbitrary: p)
  case Nil
  then show ?case by simp
next
  case (Cons e es)
  show ?case
  proof (cases "step p e")
    case None
    then show ?thesis by simp
  next
    case (Some p')
    have all: "\<forall>q\<in>set (p' # run p' es). sint (lamportClock q) \<noteq> INT_MIN"
      using Cons.prems Some by simp
    then have "sorted_wrt (<) (map (\<lambda>q. sint (lamportClock q)) (p' # run p' es))"
      using Cons.IH [of p'] by simp
    moreover have "\<forall>q\<in>set (p' # run p' es). sint (lamportClock p) < sint (lamportClock q)"
      using run_above [of p "e # es"] Cons.prems Some by simp
    ultimately show ?thesis
      using Some by simp
  qed
qed

section \<open>Claims about the clock and the timestamps\<close>

text \<open>
  C1 as stated: the clock strictly increases at each event, being the previous value
  plus exactly one after a send. The clock is a 32-bit \<^verbatim>\<open>int\<close>: a send at clock
  \<^verbatim>\<open>INT_MAX\<close>, or the receive of a message stamped \<^verbatim>\<open>INT_MAX\<close>, leaves the clock
  at \<^verbatim>\<open>INT_MIN\<close>, below its previous value.
\<close>

theorem lamport_clock_overflow_counterexample:
  "sint (lamportClock (proc5\<lparr>lamportClock := 2147483647\<rparr>)) = 2147483647
   \<and> sint (lamportClock (fst (send (proc5\<lparr>lamportClock := 2147483647\<rparr>) (memo 0 1) 2 3))) =
       - 2147483648
   \<and> \<not> sint (lamportClock (proc5\<lparr>lamportClock := 2147483647\<rparr>)) <
         sint (lamportClock (fst (send (proc5\<lparr>lamportClock := 2147483647\<rparr>) (memo 0 1) 2 3)))
   \<and> sint (lamportClock proc5) = 4
   \<and> sint (lamportClock
             (fst (receive proc5 (memo 0 0) (memo 2147483647 1, delivery 2 3) 2 3))) =
       - 2147483648"
  by (simp add: proc5_def memo_def std_max_def send_def receive_def fetchFromBuffer_def
      setTimestamp_def getTimestamp_def word_sless_alt Let_def)

text \<open>
  C1, amended. As long as no increment overflows the 32-bit clock, the Lamport clock
  strictly increases at each event. After \<^verbatim>\<open>send\<close>, \<^verbatim>\<open>broadcast\<close>,
  \<^verbatim>\<open>sendVector\<close> and \<^verbatim>\<open>broadcastVector\<close> from a clock below \<^verbatim>\<open>INT_MAX\<close> the
  clock is its previous value plus exactly one, whatever the number of elements or
  recipients. After \<^verbatim>\<open>receive\<close> and \<^verbatim>\<open>receiveAny\<close> it is the maximum of the
  previous clock and the timestamp of the message received, plus one, when that maximum
  is below \<^verbatim>\<open>INT_MAX\<close>. A vector receive whose probe answers a positive count
  returns, and its clock is the same with the timestamp of the first element. An event
  raises the clock exactly when it does not leave it at \<^verbatim>\<open>INT_MIN\<close>, the value an
  overflowing increment produces; so along every run in which the clock never becomes
  \<^verbatim>\<open>INT_MIN\<close> the clock values are strictly increasing.
\<close>

theorem lamport_clock_increases_without_overflow:
  "(sint (lamportClock p) < INT_MAX \<longrightarrow>
      sint (lamportClock (fst (send p m r t))) = sint (lamportClock p) + 1
      \<and> sint (lamportClock (fst (broadcast p m t))) = sint (lamportClock p) + 1
      \<and> sint (lamportClock (fst (sendVector p ms r t))) = sint (lamportClock p) + 1
      \<and> sint (lamportClock (fst (broadcastVector p ms t))) = sint (lamportClock p) + 1)
   \<and> (max (sint (lamportClock p)) (sint (timestamp (fst (snd (receive p d inc r t)))))
        < INT_MAX \<longrightarrow>
      sint (lamportClock (fst (receive p d inc r t))) =
        max (sint (lamportClock p)) (sint (timestamp (fst (snd (receive p d inc r t))))) + 1)
   \<and> (max (sint (lamportClock p)) (sint (timestamp (fst (snd (receiveAny p d inc t)))))
        < INT_MAX \<longrightarrow>
      sint (lamportClock (fst (receiveAny p d inc t))) =
        max (sint (lamportClock p)) (sint (timestamp (fst (snd (receiveAny p d inc t))))) + 1)
   \<and> (0 < sz \<longrightarrow>
        (\<exists>p' ms' st. receiveVector p ds dflt sz incs r t = Returned (p', ms', st)
           \<and> (max (sint (lamportClock p)) (sint (timestamp (ms' ! 0))) < INT_MAX \<longrightarrow>
                sint (lamportClock p') =
                  max (sint (lamportClock p)) (sint (timestamp (ms' ! 0))) + 1)))
   \<and> (0 < sz \<longrightarrow>
        (\<exists>p' ms' st. receiveVectorAny p ds dflt sz incs t = Returned (p', ms', st)
           \<and> (max (sint (lamportClock p)) (sint (timestamp (ms' ! 0))) < INT_MAX \<longrightarrow>
                sint (lamportClock p') =
                  max (sint (lamportClock p)) (sint (timestamp (ms' ! 0))) + 1)))
   \<and> (step p e = Some q \<longrightarrow>
        (sint (lamportClock p) < sint (lamportClock q)) = (sint (lamportClock q) \<noteq> INT_MIN))
   \<and> ((\<forall>q\<in>set (run p es). sint (lamportClock q) \<noteq> INT_MIN) \<longrightarrow>
        sorted_wrt (<) (map (\<lambda>q. sint (lamportClock q)) (p # run p es)))"
proof -
  have sends: "sint (lamportClock p) < INT_MAX \<longrightarrow>
      sint (lamportClock (fst (send p m r t))) = sint (lamportClock p) + 1
      \<and> sint (lamportClock (fst (broadcast p m t))) = sint (lamportClock p) + 1
      \<and> sint (lamportClock (fst (sendVector p ms r t))) = sint (lamportClock p) + 1
      \<and> sint (lamportClock (fst (broadcastVector p ms t))) = sint (lamportClock p) + 1"
    by (simp add: send_eq broadcast_eq sendVector_eq broadcastVector_eq sint_succ)
  have observe: "max (sint c) (sint ts) < INT_MAX \<Longrightarrow>
      sint (std_max c ts + 1) = max (sint c) (sint ts) + 1" for c ts :: int32
    using sint_succ [of "std_max c ts"] by (simp add: sint_std_max)
  have rcv: "max (sint (lamportClock p)) (sint (timestamp (fst (snd (receive p d inc r t)))))
        < INT_MAX \<longrightarrow>
      sint (lamportClock (fst (receive p d inc r t))) =
        max (sint (lamportClock p)) (sint (timestamp (fst (snd (receive p d inc r t))))) + 1"
    using observe by (simp add: receive_clock)
  have rcvAny: "max (sint (lamportClock p)) (sint (timestamp (fst (snd (receiveAny p d inc t)))))
        < INT_MAX \<longrightarrow>
      sint (lamportClock (fst (receiveAny p d inc t))) =
        max (sint (lamportClock p)) (sint (timestamp (fst (snd (receiveAny p d inc t))))) + 1"
    unfolding receiveAny_def using observe by (simp add: receive_clock)
  have vec: "0 < sz \<longrightarrow>
        (\<exists>p' ms' st. receiveVector p ds dflt sz incs src t = Returned (p', ms', st)
           \<and> (max (sint (lamportClock p)) (sint (timestamp (ms' ! 0))) < INT_MAX \<longrightarrow>
                sint (lamportClock p') =
                  max (sint (lamportClock p)) (sint (timestamp (ms' ! 0))) + 1))" for src
  proof
    assume "0 < sz"
    then obtain p' ms' st where
      ret: "receiveVector p ds dflt sz incs src t = Returned (p', ms', st)"
      using receiveVector_returns [of sz p ds dflt incs src t] by blast
    then have "lamportClock p' = std_max (lamportClock p) (timestamp (ms' ! 0)) + 1"
      by (rule receiveVector_clock)
    then have "max (sint (lamportClock p)) (sint (timestamp (ms' ! 0))) < INT_MAX \<longrightarrow>
        sint (lamportClock p') = max (sint (lamportClock p)) (sint (timestamp (ms' ! 0))) + 1"
      using observe by simp
    with ret show "\<exists>p' ms' st. receiveVector p ds dflt sz incs src t = Returned (p', ms', st)
           \<and> (max (sint (lamportClock p)) (sint (timestamp (ms' ! 0))) < INT_MAX \<longrightarrow>
                sint (lamportClock p') =
                  max (sint (lamportClock p)) (sint (timestamp (ms' ! 0))) + 1)"
      by blast
  qed
  have vecAny: "0 < sz \<longrightarrow>
        (\<exists>p' ms' st. receiveVectorAny p ds dflt sz incs t = Returned (p', ms', st)
           \<and> (max (sint (lamportClock p)) (sint (timestamp (ms' ! 0))) < INT_MAX \<longrightarrow>
                sint (lamportClock p') =
                  max (sint (lamportClock p)) (sint (timestamp (ms' ! 0))) + 1))"
    unfolding receiveVectorAny_def by (rule vec)
  have stp: "step p e = Some q \<longrightarrow>
        (sint (lamportClock p) < sint (lamportClock q)) = (sint (lamportClock q) \<noteq> INT_MIN)"
    using step_increases_iff by blast
  have rn: "(\<forall>q\<in>set (run p es). sint (lamportClock q) \<noteq> INT_MIN) \<longrightarrow>
        sorted_wrt (<) (map (\<lambda>q. sint (lamportClock q)) (p # run p es))"
    using run_sorted by blast
  from sends rcv rcvAny vec [of r] vecAny stp rn show ?thesis
    by (intro conjI)
qed

text \<open>
  The process of rank 5 starts at clock 4: a send, a batch broadcast of two elements, a
  receive of a message stamped 9, a vector receive whose first element is stamped 3 and
  a wildcard vector receive whose first element is stamped 1 bring the clock to 5, 6,
  10, 11 and 12.
\<close>

theorem lamport_clock_increases_without_overflow_witness:
  "map (\<lambda>q. sint (lamportClock q))
     (run proc5
        [SendEv (memo 0 1) 2 3,
         BroadcastVectorEv [memo 0 1, memo 0 2] 3,
         ReceiveEv (memo 0 0) (memo 9 4, delivery 2 3) 2 3,
         ReceiveVectorEv [] (memo 0 0) 2 ([memo 3 1, memo 50 2], delivery 7 1) 7 1,
         ReceiveVectorAnyEv [] (memo 0 0) 1 ([memo 1 7], delivery 2 1) 1]) =
     [5, 6, 10, 11, 12]
   \<and> sorted_wrt (<)
       (map (\<lambda>q. sint (lamportClock q))
          (proc5 #
           run proc5
             [SendEv (memo 0 1) 2 3,
              BroadcastVectorEv [memo 0 1, memo 0 2] 3,
              ReceiveEv (memo 0 0) (memo 9 4, delivery 2 3) 2 3,
              ReceiveVectorEv [] (memo 0 0) 2 ([memo 3 1, memo 50 2], delivery 7 1) 7 1,
              ReceiveVectorAnyEv [] (memo 0 0) 1 ([memo 1 7], delivery 2 1) 1]))
   \<and> sint (lamportClock (fst (send proc5 (memo 0 1) 2 3))) = 5
   \<and> sint (lamportClock (fst (receive proc5 (memo 0 0) (memo 9 4, delivery 2 3) 2 3))) = 10
   \<and> (\<exists>p' ms' st.
        receiveVectorAny proc5 [] (memo 0 0) 1 ([memo 1 7], delivery 2 1) 1 =
          Returned (p', ms', st)
        \<and> sint (lamportClock p') = 5)
   \<and> sint (lamportClock (fst (receiveAny proc5 (memo 0 0) (memo 9 4, delivery 2 3) 3))) = 10
   \<and> (\<exists>p' ms' st.
        receiveVector proc5 [] (memo 0 0) 2 ([memo 3 1, memo 50 2], delivery 7 1) 7 1 =
          Returned (p', ms', st)
        \<and> sint (lamportClock p') = 5)
   \<and> sint (lamportClock proc5) < sint (lamportClock (fst (send proc5 (memo 0 1) 2 3)))"
proof -
  let ?es = "[SendEv (memo 0 1) 2 3,
              BroadcastVectorEv [memo 0 1, memo 0 2] 3,
              ReceiveEv (memo 0 0) (memo 9 4, delivery 2 3) 2 3,
              ReceiveVectorEv [] (memo 0 0) 2 ([memo 3 1, memo 50 2], delivery 7 1) 7 1,
              ReceiveVectorAnyEv [] (memo 0 0) 1 ([memo 1 7], delivery 2 1) 1]"
  note inst = lamport_clock_increases_without_overflow [where p = proc5 and es = ?es
      and m = "memo 0 1" and r = 2 and t = 3 and d = "memo 0 0"
      and inc = "(memo 9 4, delivery 2 3)" and e = "SendEv (memo 0 1) 2 3"
      and q = "fst (send proc5 (memo 0 1) 2 3)"]
  have clocks: "map lamportClock (run proc5 ?es) = [5, 6, 10, 11, 12]"
    by (simp add: proc5_def memo_def std_max_def delivery_def send_eq broadcastVector_eq receive_def
        fetchFromBuffer_def receiveVector_def receiveVectorAny_def resize_def recvRange_def
        getTimestamp_def mpl_undefined_def word_sless_alt Let_def)
  have "map (\<lambda>q. sint (lamportClock q)) (run proc5 ?es) =
      map sint (map lamportClock (run proc5 ?es))"
    by simp
  then have a: "map (\<lambda>q. sint (lamportClock q)) (run proc5 ?es) = [5, 6, 10, 11, 12]"
    by (simp only: clocks) simp
  have "\<forall>c\<in>set (map (\<lambda>q. sint (lamportClock q)) (run proc5 ?es)). c \<noteq> INT_MIN"
    by (simp only: a) (simp add: INT_MIN_def)
  then have safe: "\<forall>q\<in>set (run proc5 ?es). sint (lamportClock q) \<noteq> INT_MIN"
    by simp
  have b: "sorted_wrt (<) (map (\<lambda>q. sint (lamportClock q)) (proc5 # run proc5 ?es))"
    using inst safe by blast
  have below: "sint (lamportClock proc5) < INT_MAX"
    by (simp add: proc5_def INT_MAX_def)
  have "sint (lamportClock (fst (send proc5 (memo 0 1) 2 3))) = sint (lamportClock proc5) + 1"
    using inst below by blast
  then have c: "sint (lamportClock (fst (send proc5 (memo 0 1) 2 3))) = 5"
    by (simp add: proc5_def)
  have got: "fst (snd (receive proc5 (memo 0 0) (memo 9 4, delivery 2 3) 2 3)) = memo 9 4"
    by (simp add: receive_def fetchFromBuffer_def proc5_def)
  have "max (sint (lamportClock proc5))
          (sint (timestamp (fst (snd (receive proc5 (memo 0 0) (memo 9 4, delivery 2 3) 2 3)))))
        < INT_MAX"
    by (simp only: got) (simp add: proc5_def memo_def INT_MAX_def)
  then have "sint (lamportClock (fst (receive proc5 (memo 0 0) (memo 9 4, delivery 2 3) 2 3))) =
      max (sint (lamportClock proc5))
        (sint (timestamp (fst (snd (receive proc5 (memo 0 0) (memo 9 4, delivery 2 3) 2 3))))) + 1"
    using inst by blast
  then have d: "sint (lamportClock (fst (receive proc5 (memo 0 0) (memo 9 4, delivery 2 3) 2 3))) = 10"
    by (simp only: got) (simp add: proc5_def memo_def std_max_def)
  have e: "\<exists>p' ms' st.
        receiveVectorAny proc5 [] (memo 0 0) 1 ([memo 1 7], delivery 2 1) 1 =
          Returned (p', ms', st)
        \<and> sint (lamportClock p') = 5"
  proof -
    have "(0::int) < 1"
      by simp
    then obtain p' ms' st where
      ret: "receiveVectorAny proc5 [] (memo 0 0) 1 ([memo 1 7], delivery 2 1) 1 =
          Returned (p', ms', st)"
      and clk: "max (sint (lamportClock proc5)) (sint (timestamp (ms' ! 0))) < INT_MAX \<longrightarrow>
          sint (lamportClock p') = max (sint (lamportClock proc5)) (sint (timestamp (ms' ! 0))) + 1"
      using lamport_clock_increases_without_overflow [where p = proc5 and ds = "[]"
          and dflt = "memo 0 0" and sz = 1 and incs = "([memo 1 7], delivery 2 1)" and t = 1]
      by blast
    from ret have "ms' = [memo 1 7]"
      by (simp add: receiveVectorAny_def receiveVector_def resize_def recvRange_def
          mpl_undefined_def Let_def)
    then have "sint (lamportClock p') = 5"
      using clk by (simp add: proc5_def memo_def std_max_def INT_MAX_def)
    with ret show ?thesis
      by blast
  qed
  have gotAny: "fst (snd (receiveAny proc5 (memo 0 0) (memo 9 4, delivery 2 3) 3)) = memo 9 4"
    by (simp add: receiveAny_def receive_def fetchFromBuffer_def proc5_def)
  have "max (sint (lamportClock proc5))
          (sint (timestamp (fst (snd (receiveAny proc5 (memo 0 0) (memo 9 4, delivery 2 3) 3)))))
        < INT_MAX"
    by (simp only: gotAny) (simp add: proc5_def memo_def INT_MAX_def)
  then have "sint (lamportClock (fst (receiveAny proc5 (memo 0 0) (memo 9 4, delivery 2 3) 3))) =
      max (sint (lamportClock proc5))
        (sint (timestamp (fst (snd (receiveAny proc5 (memo 0 0) (memo 9 4, delivery 2 3) 3))))) + 1"
    using inst by blast
  then have f: "sint (lamportClock (fst (receiveAny proc5 (memo 0 0) (memo 9 4, delivery 2 3) 3))) = 10"
    by (simp only: gotAny) (simp add: proc5_def memo_def)
  have g: "\<exists>p' ms' st.
        receiveVector proc5 [] (memo 0 0) 2 ([memo 3 1, memo 50 2], delivery 7 1) 7 1 =
          Returned (p', ms', st)
        \<and> sint (lamportClock p') = 5"
  proof -
    have "(0::int) < 2"
      by simp
    then obtain p' ms' st where
      ret: "receiveVector proc5 [] (memo 0 0) 2 ([memo 3 1, memo 50 2], delivery 7 1) 7 1 =
          Returned (p', ms', st)"
      and clk: "max (sint (lamportClock proc5)) (sint (timestamp (ms' ! 0))) < INT_MAX \<longrightarrow>
          sint (lamportClock p') = max (sint (lamportClock proc5)) (sint (timestamp (ms' ! 0))) + 1"
      using lamport_clock_increases_without_overflow [where p = proc5 and ds = "[]"
          and dflt = "memo 0 0" and sz = 2 and incs = "([memo 3 1, memo 50 2], delivery 7 1)"
          and r = 7 and t = 1]
      by blast
    from ret have "ms' = [memo 3 1, memo 50 2]"
      by (simp add: receiveVector_def resize_def recvRange_def mpl_undefined_def Let_def)
    then have "sint (lamportClock p') = 5"
      using clk by (simp add: proc5_def memo_def INT_MAX_def)
    with ret show ?thesis
      by blast
  qed
  have "step proc5 (SendEv (memo 0 1) 2 3) = Some (fst (send proc5 (memo 0 1) 2 3))"
    by simp
  then have "(sint (lamportClock proc5) < sint (lamportClock (fst (send proc5 (memo 0 1) 2 3)))) =
      (sint (lamportClock (fst (send proc5 (memo 0 1) 2 3))) \<noteq> INT_MIN)"
    using inst by blast
  then have h: "sint (lamportClock proc5) < sint (lamportClock (fst (send proc5 (memo 0 1) 2 3)))"
    by (simp only: c) (simp add: INT_MIN_def)
  from a b c d e f g h show ?thesis
    by (intro conjI)
qed

text \<open>
  C2 as stated: the timestamp written into an outgoing message is the clock value before
  the increment of that send event. The code increments first and stamps afterwards: the
  process at clock 4 stamps its message with 5.
\<close>

theorem send_stamps_old_clock_counterexample:
  "lamportClock proc5 = 4
   \<and> timestamp (snd (send proc5 (memo 0 1) 2 3)) = 5
   \<and> communicator (fst (send proc5 (memo 0 1) 2 3)) = [Send (memo 5 1) 2 3]
   \<and> map timestamp (snd (sendVector proc5 [memo 0 1, memo 0 2] 2 3)) = [5, 5]
   \<and> map timestamp (snd (broadcastVector proc5 [memo 0 1, memo 0 2] 3)) = [5, 5]"
  by (simp add: proc5_def memo_def std_max_def send_def sendVector_def broadcastVector_def
      setTimestamp_def Let_def)

text \<open>
  C2, amended. For every call to \<^verbatim>\<open>send\<close>, \<^verbatim>\<open>sendVector\<close> or
  \<^verbatim>\<open>broadcastVector\<close>, the timestamp written into the outgoing message, and into every
  element of a batch alike, is the clock value after the one-unit increment of that
  event (the previous clock plus one); that stamped message or batch is what the
  transport is given.
\<close>

theorem send_stamps_incremented_clock:
  "snd (send p m r t) = m\<lparr>timestamp := lamportClock p + 1\<rparr>
   \<and> timestamp (snd (send p m r t)) = lamportClock (fst (send p m r t))
   \<and> communicator (fst (send p m r t)) =
       communicator p @ [Send (m\<lparr>timestamp := lamportClock p + 1\<rparr>) r t]
   \<and> snd (sendVector p ms r t) = map (\<lambda>m. m\<lparr>timestamp := lamportClock p + 1\<rparr>) ms
   \<and> map timestamp (snd (sendVector p ms r t)) =
       replicate (length ms) (lamportClock (fst (sendVector p ms r t)))
   \<and> communicator (fst (sendVector p ms r t)) =
       communicator p @ [SendRange (map (\<lambda>m. m\<lparr>timestamp := lamportClock p + 1\<rparr>) ms) r t]
   \<and> snd (broadcastVector p ms t) = map (\<lambda>m. m\<lparr>timestamp := lamportClock p + 1\<rparr>) ms
   \<and> map timestamp (snd (broadcastVector p ms t)) =
       replicate (length ms) (lamportClock (fst (broadcastVector p ms t)))
   \<and> communicator (fst (broadcastVector p ms t)) =
       communicator p @
       map (\<lambda>r. SendRange (map (\<lambda>m. m\<lparr>timestamp := lamportClock p + 1\<rparr>) ms) r t)
         (filter (\<lambda>r. r \<noteq> rank p) (broadcastScope p))"
  by (simp add: send_eq sendVector_eq broadcastVector_eq comp_def map_replicate_const)

theorem send_stamps_incremented_clock_witness:
  "snd (send proc5 (memo 0 1) 2 3) = memo 5 1
   \<and> snd (sendVector proc5 [memo 0 1, memo 7 2] 2 3) = [memo 5 1, memo 5 2]
   \<and> communicator (fst (broadcastVector proc5 [memo 0 1, memo 7 2] 3)) =
       [SendRange [memo 5 1, memo 5 2] 2 3, SendRange [memo 5 1, memo 5 2] 7 3]"
proof -
  note inst = send_stamps_incremented_clock
    [where p = proc5 and m = "memo 0 1" and ms = "[memo 0 1, memo 7 2]" and r = 2 and t = 3]
  have "snd (send proc5 (memo 0 1) 2 3) = (memo 0 1)\<lparr>timestamp := lamportClock proc5 + 1\<rparr>"
    using inst by blast
  then have a: "snd (send proc5 (memo 0 1) 2 3) = memo 5 1"
    by (simp add: proc5_def memo_def std_max_def)
  have "snd (sendVector proc5 [memo 0 1, memo 7 2] 2 3) =
      map (\<lambda>m. m\<lparr>timestamp := lamportClock proc5 + 1\<rparr>) [memo 0 1, memo 7 2]"
    using inst by blast
  then have b: "snd (sendVector proc5 [memo 0 1, memo 7 2] 2 3) = [memo 5 1, memo 5 2]"
    by (simp add: proc5_def memo_def std_max_def)
  have "communicator (fst (broadcastVector proc5 [memo 0 1, memo 7 2] 3)) =
      communicator proc5 @
      map (\<lambda>r. SendRange (map (\<lambda>m. m\<lparr>timestamp := lamportClock proc5 + 1\<rparr>)
                            [memo 0 1, memo 7 2]) r 3)
        (filter (\<lambda>r. r \<noteq> rank proc5) (broadcastScope proc5))"
    using inst by blast
  then have c: "communicator (fst (broadcastVector proc5 [memo 0 1, memo 7 2] 3)) =
      [SendRange [memo 5 1, memo 5 2] 2 3, SendRange [memo 5 1, memo 5 2] 7 3]"
    by (simp add: proc5_def memo_def std_max_def)
  from a b c show ?thesis
    by blast
qed

section \<open>Claims about sending\<close>

lemma count_sends_self:
  "inj f \<Longrightarrow> count_list (map f (filter (\<lambda>x. x \<noteq> self) rs)) (f self) = 0"
  by (induction rs) (simp_all add: inj_eq)

lemma count_sends_other:
  "inj f \<Longrightarrow> r \<noteq> self
     \<Longrightarrow> count_list (map f (filter (\<lambda>x. x \<noteq> self) rs)) (f r) = count_list rs r"
  by (induction rs) (simp_all add: inj_eq)

lemma count_sends:
  "inj f \<Longrightarrow> count_list (map f (filter (\<lambda>x. x \<noteq> self) rs)) (f r) =
     (if r = self then 0 else count_list rs r)"
  by (simp add: count_sends_self count_sends_other)

lemma count_distinct: "distinct rs \<Longrightarrow> count_list rs r = (if r \<in> set rs then 1 else 0)"
  by (induction rs) auto

text \<open>
  C4. \<^verbatim>\<open>broadcast\<close> stamps the message once and hands that one stamped message to
  the transport for the ranks of the broadcast scope in their order, skipping the own
  rank: the number of copies sent to a rank is the number of times the scope lists it,
  and none for the own rank, so exactly one for each other rank of a scope that lists
  no rank twice. The clock advances by exactly one whatever the scope holds, and
  nothing else of the process changes.
\<close>

theorem broadcast_skips_self:
  "broadcast p m t = (p', m') \<Longrightarrow>
     m' = m\<lparr>timestamp := lamportClock p + 1\<rparr>
     \<and> lamportClock p' = lamportClock p + 1
     \<and> communicator p' =
         communicator p @
         map (\<lambda>r. Send m' r t) (filter (\<lambda>r. r \<noteq> rank p) (broadcastScope p))
     \<and> (\<forall>r. count_list (drop (length (communicator p)) (communicator p')) (Send m' r t) =
              (if r = rank p then 0 else count_list (broadcastScope p) r))
     \<and> (distinct (broadcastScope p) \<longrightarrow>
          (\<forall>r. count_list (drop (length (communicator p)) (communicator p')) (Send m' r t) =
               (if r \<in> set (broadcastScope p) \<and> r \<noteq> rank p then 1 else 0)))
     \<and> p' = p\<lparr>lamportClock := lamportClock p', communicator := communicator p'\<rparr>"
proof -
  assume "broadcast p m t = (p', m')"
  then have m': "m' = m\<lparr>timestamp := lamportClock p + 1\<rparr>"
    and p': "p' = p\<lparr>lamportClock := lamportClock p + 1,
              communicator := communicator p @
                map (\<lambda>r. Send m' r t) (filter (\<lambda>r. r \<noteq> rank p) (broadcastScope p))\<rparr>"
    by (auto simp: broadcast_eq)
  have inj: "inj (\<lambda>r. Send m' r t)"
    by (simp add: inj_def)
  have cnt: "count_list (drop (length (communicator p)) (communicator p')) (Send m' r t) =
      (if r = rank p then 0 else count_list (broadcastScope p) r)" for r
    using count_sends [OF inj, of "rank p" "broadcastScope p" r] by (simp add: p')
  have "distinct (broadcastScope p) \<longrightarrow>
          (\<forall>r. count_list (drop (length (communicator p)) (communicator p')) (Send m' r t) =
               (if r \<in> set (broadcastScope p) \<and> r \<noteq> rank p then 1 else 0))"
    by (simp add: cnt count_distinct)
  moreover have "lamportClock p' = lamportClock p + 1"
    by (simp add: p')
  moreover have "communicator p' = communicator p @
         map (\<lambda>r. Send m' r t) (filter (\<lambda>r. r \<noteq> rank p) (broadcastScope p))"
    by (simp add: p')
  moreover have "p' = p\<lparr>lamportClock := lamportClock p', communicator := communicator p'\<rparr>"
    by (simp add: p')
  ultimately show ?thesis
    using m' cnt by blast
qed

text \<open>
  The scope \<open>{2, 5, 7}\<close> at rank 5: the broadcast sends to 2 and 7 only and the clock
  goes from 4 to 5; with only the own rank in scope nothing is sent and the clock
  still advances by one.
\<close>

theorem broadcast_skips_self_witness:
  "broadcast proc5 (memo 0 1) 3 =
     (proc5\<lparr>lamportClock := 5,
             communicator := [Send (memo 5 1) 2 3, Send (memo 5 1) 7 3]\<rparr>, memo 5 1)
   \<and> broadcast (proc5\<lparr>broadcastScope := [5]\<rparr>) (memo 0 1) 3 =
     (proc5\<lparr>broadcastScope := [5], lamportClock := 5\<rparr>, memo 5 1)
   \<and> count_list [Send (memo 5 1) 2 3, Send (memo 5 1) 7 3] (Send (memo 5 1) 7 3) = 1
   \<and> count_list [Send (memo 5 1) 2 3, Send (memo 5 1) 7 3] (Send (memo 5 1) 5 3) = 0"
proof -
  have b: "broadcast proc5 (memo 0 1) 3 =
     (proc5\<lparr>lamportClock := 5,
             communicator := [Send (memo 5 1) 2 3, Send (memo 5 1) 7 3]\<rparr>, memo 5 1)"
    by (simp add: broadcast_def setTimestamp_def proc5_def memo_def std_max_def Let_def)
  have c: "broadcast (proc5\<lparr>broadcastScope := [5]\<rparr>) (memo 0 1) 3 =
     (proc5\<lparr>broadcastScope := [5], lamportClock := 5\<rparr>, memo 5 1)"
    by (simp add: broadcast_def setTimestamp_def proc5_def memo_def std_max_def Let_def)
  have "lamportClock (proc5\<lparr>lamportClock := 5,
             communicator := [Send (memo 5 1) 2 3, Send (memo 5 1) 7 3]\<rparr>) =
        lamportClock proc5 + 1"
    using broadcast_skips_self [OF b] by blast
  have scope: "distinct (broadcastScope proc5)"
    by (simp add: proc5_def)
  have counts: "count_list
        (drop (length (communicator proc5))
           (communicator (proc5\<lparr>lamportClock := 5,
              communicator := [Send (memo 5 1) 2 3, Send (memo 5 1) 7 3]\<rparr>)))
        (Send (memo 5 1) r 3) =
      (if r \<in> set (broadcastScope proc5) \<and> r \<noteq> rank proc5 then 1 else 0)" for r
    using broadcast_skips_self [OF b] scope by blast
  have d: "count_list [Send (memo 5 1) 2 3, Send (memo 5 1) 7 3] (Send (memo 5 1) 7 3) = 1"
    using counts [of 7] by (simp add: proc5_def)
  have e: "count_list [Send (memo 5 1) 2 3, Send (memo 5 1) 7 3] (Send (memo 5 1) 5 3) = 0"
    using counts [of 5] by (simp add: proc5_def)
  from b c d e show ?thesis
    by blast
qed

section \<open>Claims about vector receives and the wildcard variants\<close>

text \<open>
  C3. When the size probe answers \<^verbatim>\<open>mpl::undefined\<close> or zero,
  \<^verbatim>\<open>receiveVector\<close> and \<^verbatim>\<open>receiveVectorAny\<close> end the process through
  \<^verbatim>\<open>exit\<close> with the non-zero status \<^verbatim>\<open>EXIT_FAILURE\<close>: the probe is the only
  transport call made (no receive), and the clock, the buffer and the destination
  vector are as they were. When the probe answers a count (an undefined answer apart, a
  count of elements is never negative, so this is \<open>0 < sz\<close>), the destination is
  resized to exactly that count, one receive into a range of that many elements is
  made, and a delivery of that many elements is the destination afterwards.
\<close>

theorem receiveVector_probe:
  "(sz = mpl_undefined \<or> sz = 0 \<longrightarrow>
      receiveVector p d dflt sz inc r t =
        Exited EXIT_FAILURE (p\<lparr>communicator := communicator p @ [Probe r t]\<rparr>, d)
      \<and> receiveVectorAny p d dflt sz inc t =
        Exited EXIT_FAILURE (p\<lparr>communicator := communicator p @ [Probe mpl_any_source t]\<rparr>, d)
      \<and> lamportClock (p\<lparr>communicator := communicator p @ [Probe r t]\<rparr>) = lamportClock p
      \<and> EXIT_FAILURE \<noteq> 0)
   \<and> (0 < sz \<longrightarrow>
      (\<exists>p' d'. receiveVector p d dflt sz inc r t = Returned (p', d', snd inc)
         \<and> length d' = nat sz
         \<and> communicator p' = communicator p @ [Probe r t, RecvRange (nat sz) r t]
         \<and> (length (fst inc) = nat sz \<longrightarrow> d' = fst inc))
      \<and> (\<exists>p' d'. receiveVectorAny p d dflt sz inc t = Returned (p', d', snd inc)
         \<and> length d' = nat sz
         \<and> communicator p' =
             communicator p @ [Probe mpl_any_source t, RecvRange (nat sz) mpl_any_source t]
         \<and> (length (fst inc) = nat sz \<longrightarrow> d' = fst inc)))"
proof (intro conjI impI)
  assume "sz = mpl_undefined \<or> sz = 0"
  then show "receiveVector p d dflt sz inc r t =
        Exited EXIT_FAILURE (p\<lparr>communicator := communicator p @ [Probe r t]\<rparr>, d)"
    by (rule receiveVector_fatal)
next
  assume "sz = mpl_undefined \<or> sz = 0"
  then show "receiveVectorAny p d dflt sz inc t =
        Exited EXIT_FAILURE (p\<lparr>communicator := communicator p @ [Probe mpl_any_source t]\<rparr>, d)"
    unfolding receiveVectorAny_def by (rule receiveVector_fatal)
next
  show "lamportClock (p\<lparr>communicator := communicator p @ [Probe r t]\<rparr>) = lamportClock p"
    by simp
next
  show "EXIT_FAILURE \<noteq> 0"
    by (simp add: EXIT_FAILURE_def)
next
  assume "0 < sz"
  then show "\<exists>p' d'. receiveVector p d dflt sz inc r t = Returned (p', d', snd inc)
         \<and> length d' = nat sz
         \<and> communicator p' = communicator p @ [Probe r t, RecvRange (nat sz) r t]
         \<and> (length (fst inc) = nat sz \<longrightarrow> d' = fst inc)"
    by (simp add: receiveVector_returns length_recvRange length_resize recvRange_exact)
next
  assume "0 < sz"
  then show "\<exists>p' d'. receiveVectorAny p d dflt sz inc t = Returned (p', d', snd inc)
         \<and> length d' = nat sz
         \<and> communicator p' =
             communicator p @ [Probe mpl_any_source t, RecvRange (nat sz) mpl_any_source t]
         \<and> (length (fst inc) = nat sz \<longrightarrow> d' = fst inc)"
    by (simp add: receiveVectorAny_def receiveVector_returns length_recvRange length_resize
        recvRange_exact)
qed

text \<open>
  A probe answering zero or \<^verbatim>\<open>mpl::undefined\<close> ends the process of rank 5 with
  status 1 after the probe alone; a probe answering 2 lets it receive the two elements
  and observe the first one's timestamp 3 at clock 4.
\<close>

theorem receiveVector_probe_witness:
  "receiveVector proc5 [memo 1 1] (memo 0 0) 0 ([], delivery 2 3) 2 3 =
     Exited 1 (proc5\<lparr>communicator := [Probe 2 3]\<rparr>, [memo 1 1])
   \<and> receiveVector proc5 [memo 1 1] (memo 0 0) mpl_undefined ([], delivery 2 3) 2 3 =
     Exited 1 (proc5\<lparr>communicator := [Probe 2 3]\<rparr>, [memo 1 1])
   \<and> receiveVector proc5 [] (memo 0 0) 2 ([memo 3 1, memo 50 2], delivery 7 1) 7 1 =
     Returned
       (proc5\<lparr>communicator := [Probe 7 1, RecvRange 2 7 1], lamportClock := 5\<rparr>,
        [memo 3 1, memo 50 2], delivery 7 1)"
proof -
  have "receiveVector proc5 [memo 1 1] (memo 0 0) 0 ([], delivery 2 3) 2 3 =
      Exited EXIT_FAILURE (proc5\<lparr>communicator := communicator proc5 @ [Probe 2 3]\<rparr>, [memo 1 1])"
    using receiveVector_probe [where sz = 0 and p = proc5 and d = "[memo 1 1]"
        and dflt = "memo 0 0" and inc = "([], delivery 2 3)" and r = 2 and t = 3]
    by blast
  then have a: "receiveVector proc5 [memo 1 1] (memo 0 0) 0 ([], delivery 2 3) 2 3 =
      Exited 1 (proc5\<lparr>communicator := [Probe 2 3]\<rparr>, [memo 1 1])"
    by (simp add: EXIT_FAILURE_def proc5_def)
  have "receiveVector proc5 [memo 1 1] (memo 0 0) mpl_undefined ([], delivery 2 3) 2 3 =
      Exited EXIT_FAILURE (proc5\<lparr>communicator := communicator proc5 @ [Probe 2 3]\<rparr>, [memo 1 1])"
    using receiveVector_probe [where sz = mpl_undefined and p = proc5 and d = "[memo 1 1]"
        and dflt = "memo 0 0" and inc = "([], delivery 2 3)" and r = 2 and t = 3]
    by blast
  then have b: "receiveVector proc5 [memo 1 1] (memo 0 0) mpl_undefined ([], delivery 2 3) 2 3 =
      Exited 1 (proc5\<lparr>communicator := [Probe 2 3]\<rparr>, [memo 1 1])"
    by (simp add: EXIT_FAILURE_def proc5_def)
  have "(0::int) < 2"
    by simp
  then obtain p' d' where
    ret: "receiveVector proc5 [] (memo 0 0) 2 ([memo 3 1, memo 50 2], delivery 7 1) 7 1 =
        Returned (p', d', snd ([memo 3 1, memo 50 2], delivery 7 1))"
    and len: "length d' = nat 2"
    and all: "length (fst ([memo 3 1, memo 50 2], delivery 7 1)) = nat 2
        \<longrightarrow> d' = fst ([memo 3 1, memo 50 2], delivery 7 1)"
    using receiveVector_probe [where sz = 2 and p = proc5 and d = "[]"
        and dflt = "memo 0 0" and inc = "([memo 3 1, memo 50 2], delivery 7 1)"
        and r = 7 and t = 1]
    by blast
  from all have d': "d' = [memo 3 1, memo 50 2]"
    by simp
  have "p' = proc5\<lparr>communicator := [Probe 7 1, RecvRange 2 7 1], lamportClock := 5\<rparr>"
    using ret
    by (simp add: receiveVector_def resize_def recvRange_def getTimestamp_def
        mpl_undefined_def proc5_def memo_def std_max_def Let_def)
  with ret d' have c:
    "receiveVector proc5 [] (memo 0 0) 2 ([memo 3 1, memo 50 2], delivery 7 1) 7 1 =
     Returned
       (proc5\<lparr>communicator := [Probe 7 1, RecvRange 2 7 1], lamportClock := 5\<rparr>,
        [memo 3 1, memo 50 2], delivery 7 1)"
    by simp
  from a b c show ?thesis
    by blast
qed

text \<open>
  C8. \<^verbatim>\<open>receiveAny\<close> is \<^verbatim>\<open>receive\<close> with the wildcard source
  \<^verbatim>\<open>mpl::any_source\<close>, and \<^verbatim>\<open>receiveVectorAny\<close> is \<^verbatim>\<open>receiveVector\<close> with it:
  for every destination, tag, process state and answer of the transport, the resulting
  process, destination and status (or the way the call ends) are the same.
\<close>

theorem any_source_variants:
  "receiveAny p d inc t = receive p d inc mpl_any_source t
   \<and> receiveVectorAny p ds dflt sz incs t = receiveVector p ds dflt sz incs mpl_any_source t"
  by (simp add: receiveAny_def receiveVectorAny_def)

text \<open>
  With messages of tag 3 from ranks 7 and 2 in the buffer, \<^verbatim>\<open>receiveAny\<close> for
  tag 3 takes the one from rank 7, the first stored, as \<^verbatim>\<open>receive\<close> with the
  wildcard does.
\<close>

theorem any_source_variants_witness:
  "receiveAny (proc5\<lparr>messageBuffer := [(memo 8 1, delivery 7 3), (memo 9 2, delivery 2 3)]\<rparr>)
     (memo 0 0) (memo 1 1, delivery 4 3) 3 =
   (proc5\<lparr>messageBuffer := [(memo 9 2, delivery 2 3)], lamportClock := 9\<rparr>,
    memo 8 1, delivery 7 3)"
proof -
  let ?p = "proc5\<lparr>messageBuffer := [(memo 8 1, delivery 7 3), (memo 9 2, delivery 2 3)]\<rparr>"
  have "receiveAny ?p (memo 0 0) (memo 1 1, delivery 4 3) 3 =
      receive ?p (memo 0 0) (memo 1 1, delivery 4 3) mpl_any_source 3"
    using any_source_variants [where p = ?p] by blast
  also have "\<dots> = (proc5\<lparr>messageBuffer := [(memo 9 2, delivery 2 3)], lamportClock := 9\<rparr>,
      memo 8 1, delivery 7 3)"
    by (simp add: receive_def fetchFromBuffer_def matchesFilter_def getTimestamp_def
        proc5_def memo_def std_max_def delivery_def)
  finally show ?thesis .
qed

section \<open>Claim about empty batches\<close>

text \<open>
  C9. \<^verbatim>\<open>sendVector\<close> and \<^verbatim>\<open>broadcastVector\<close> have no guard against an empty
  vector: they still advance the clock by exactly one and hand the transport a batch of
  length zero (one per recipient other than the own rank for the broadcast). On the
  receiving side a probe that reports the count of such a batch, zero, makes
  \<^verbatim>\<open>receiveVector\<close> end the process with \<^verbatim>\<open>EXIT_FAILURE\<close>.
\<close>

theorem empty_batch_is_sent:
  "sendVector p [] r t =
     (p\<lparr>lamportClock := lamportClock p + 1,
        communicator := communicator p @ [SendRange [] r t]\<rparr>, [])
   \<and> broadcastVector p [] t =
     (p\<lparr>lamportClock := lamportClock p + 1,
        communicator := communicator p @
          map (\<lambda>r. SendRange [] r t) (filter (\<lambda>r. r \<noteq> rank p) (broadcastScope p))\<rparr>, [])
   \<and> receiveVector q d dflt (int (length (snd (sendVector p [] r t)))) inc src t =
     Exited EXIT_FAILURE (q\<lparr>communicator := communicator q @ [Probe src t]\<rparr>, d)
   \<and> EXIT_FAILURE \<noteq> 0"
  by (simp add: sendVector_eq broadcastVector_eq receiveVector_fatal EXIT_FAILURE_def)

theorem empty_batch_is_sent_witness:
  "sendVector proc5 [] 2 3 =
     (proc5\<lparr>lamportClock := 5, communicator := [SendRange [] 2 3]\<rparr>, [])
   \<and> broadcastVector proc5 [] 3 =
     (proc5\<lparr>lamportClock := 5,
             communicator := [SendRange [] 2 3, SendRange [] 7 3]\<rparr>, [])"
proof -
  note inst = empty_batch_is_sent [where p = proc5 and r = 2 and t = 3]
  have "sendVector proc5 [] 2 3 =
     (proc5\<lparr>lamportClock := lamportClock proc5 + 1,
        communicator := communicator proc5 @ [SendRange [] 2 3]\<rparr>, [])"
    using inst by blast
  then have a: "sendVector proc5 [] 2 3 =
     (proc5\<lparr>lamportClock := 5, communicator := [SendRange [] 2 3]\<rparr>, [])"
    by (simp add: proc5_def)
  have "broadcastVector proc5 [] 3 =
     (proc5\<lparr>lamportClock := lamportClock proc5 + 1,
        communicator := communicator proc5 @
          map (\<lambda>r. SendRange [] r 3)
            (filter (\<lambda>r. r \<noteq> rank proc5) (broadcastScope proc5))\<rparr>, [])"
    using inst by blast
  then have b: "broadcastVector proc5 [] 3 =
     (proc5\<lparr>lamportClock := 5,
             communicator := [SendRange [] 2 3, SendRange [] 7 3]\<rparr>, [])"
    by (simp add: proc5_def)
  from a b show ?thesis
    by blast
qed

section \<open>Claims about the buffer\<close>

lemma fetchScan_snd:
  "snd (fetchScan buf src tags) =
     takeWhile (\<lambda>x. \<not> matchesFilter src tags x) buf @
     drop 1 (dropWhile (\<lambda>x. \<not> matchesFilter src tags x) buf)"
  by (induction buf) (auto split: prod.splits)

lemma receive_hit:
  assumes "messageBuffer p = xs @ (m, st) # ys"
    and "\<forall>x\<in>set xs. \<not> matchesFilter src [t] x"
    and "matchesFilter src [t] (m, st)"
  shows "receive p d inc src t =
     (p\<lparr>messageBuffer := xs @ ys,
        lamportClock := std_max (lamportClock p) (timestamp m) + 1\<rparr>, m, st)"
  using fetchFromBuffer_hit [OF assms] by (simp add: receive_def getTimestamp_def)

lemma receive_miss:
  assumes "\<forall>x\<in>set (messageBuffer p). \<not> matchesFilter src [t] x"
  shows "receive p d (m, st) src t =
     (p\<lparr>communicator := communicator p @ [Recv src t],
        lamportClock := std_max (lamportClock p) (timestamp m) + 1\<rparr>, m, st)"
  using fetchFromBuffer_miss [OF assms] by (simp add: receive_def getTimestamp_def)

text \<open>
  C6. \<open>store\<close> appends the entry at the end of the buffer and changes nothing else.
  \<open>fetch\<close> returns the first entry, in insertion order, whose source equals the
  filter (every source when the filter is the wildcard) and whose tag is in the tag
  set, and removes exactly that entry, the others keeping their order; when no entry
  matches it signals not-found and the process, its buffer included, is unchanged.
  After a successful fetch the buffer is one entry shorter, and the returned entry is
  not in it any more (entries being told apart, as the owned objects of the source
  are).
\<close>

theorem buffer_store_fetch:
  "storeInBuffer p m st = p\<lparr>messageBuffer := messageBuffer p @ [(m, st)]\<rparr>
   \<and> matchesFilter src tags e =
       ((src = mpl_any_source \<or> source (snd e) = src) \<and> tag (snd e) \<in> set tags)
   \<and> snd (fetchFromBuffer p src tags) = find (matchesFilter src tags) (messageBuffer p)
   \<and> fst (fetchFromBuffer p src tags) =
       p\<lparr>messageBuffer :=
           takeWhile (\<lambda>x. \<not> matchesFilter src tags x) (messageBuffer p) @
           drop 1 (dropWhile (\<lambda>x. \<not> matchesFilter src tags x) (messageBuffer p))\<rparr>
   \<and> ((\<forall>x\<in>set (messageBuffer p). \<not> matchesFilter src tags x) \<longrightarrow>
         fetchFromBuffer p src tags = (p, None))
   \<and> (messageBuffer p = xs @ e # ys \<and> (\<forall>x\<in>set xs. \<not> matchesFilter src tags x)
         \<and> matchesFilter src tags e \<longrightarrow>
         fetchFromBuffer p src tags = (p\<lparr>messageBuffer := xs @ ys\<rparr>, Some e)
         \<and> length (xs @ ys) + 1 = length (messageBuffer p)
         \<and> (distinct (messageBuffer p) \<longrightarrow> e \<notin> set (xs @ ys)))"
proof (intro conjI impI)
  show "storeInBuffer p m st = p\<lparr>messageBuffer := messageBuffer p @ [(m, st)]\<rparr>"
    by (simp add: storeInBuffer_def)
next
  show "matchesFilter src tags e =
       ((src = mpl_any_source \<or> source (snd e) = src) \<and> tag (snd e) \<in> set tags)"
    by (simp add: matchesFilter_def)
next
  have "snd (fetchFromBuffer p src tags) = fst (fetchScan (messageBuffer p) src tags)"
    by (simp add: fetchFromBuffer_def split: prod.splits)
  then show "snd (fetchFromBuffer p src tags) = find (matchesFilter src tags) (messageBuffer p)"
    by (simp add: fetchScan_find)
next
  show "fst (fetchFromBuffer p src tags) =
       p\<lparr>messageBuffer :=
           takeWhile (\<lambda>x. \<not> matchesFilter src tags x) (messageBuffer p) @
           drop 1 (dropWhile (\<lambda>x. \<not> matchesFilter src tags x) (messageBuffer p))\<rparr>"
    by (simp only: fetchFromBuffer_fst fetchScan_snd)
next
  assume "\<forall>x\<in>set (messageBuffer p). \<not> matchesFilter src tags x"
  then show "fetchFromBuffer p src tags = (p, None)"
    by (rule fetchFromBuffer_miss)
next
  assume h: "messageBuffer p = xs @ e # ys \<and> (\<forall>x\<in>set xs. \<not> matchesFilter src tags x)
         \<and> matchesFilter src tags e"
  then show "fetchFromBuffer p src tags = (p\<lparr>messageBuffer := xs @ ys\<rparr>, Some e)"
    by (simp add: fetchFromBuffer_hit)
  from h show "length (xs @ ys) + 1 = length (messageBuffer p)"
    by simp
  assume "distinct (messageBuffer p)"
  with h show "e \<notin> set (xs @ ys)"
    by auto
qed

text \<open>
  Three buffered entries, from ranks 7, 2 and 2 with tags 3, 4 and 3. A fetch for
  rank 2 and tag 3 passes over the first two and removes the third; nothing matches
  rank 9.
\<close>

theorem buffer_store_fetch_witness:
  "fetchFromBuffer
     (proc5\<lparr>messageBuffer :=
        [(memo 8 1, delivery 7 3), (memo 9 2, delivery 2 4), (memo 6 3, delivery 2 3)]\<rparr>)
     2 [3] =
     (proc5\<lparr>messageBuffer := [(memo 8 1, delivery 7 3), (memo 9 2, delivery 2 4)]\<rparr>,
      Some (memo 6 3, delivery 2 3))
   \<and> fetchFromBuffer
     (proc5\<lparr>messageBuffer :=
        [(memo 8 1, delivery 7 3), (memo 9 2, delivery 2 4), (memo 6 3, delivery 2 3)]\<rparr>)
     9 [3, 4] =
     (proc5\<lparr>messageBuffer :=
        [(memo 8 1, delivery 7 3), (memo 9 2, delivery 2 4), (memo 6 3, delivery 2 3)]\<rparr>,
      None)
   \<and> (memo 6 3, delivery 2 3) \<notin> set [(memo 8 1, delivery 7 3), (memo 9 2, delivery 2 4)]"
proof -
  let ?p = "proc5\<lparr>messageBuffer :=
        [(memo 8 1, delivery 7 3), (memo 9 2, delivery 2 4), (memo 6 3, delivery 2 3)]\<rparr>"
  have buf: "messageBuffer ?p =
      [(memo 8 1, delivery 7 3), (memo 9 2, delivery 2 4)] @ (memo 6 3, delivery 2 3) # []"
    by simp
  have before: "\<forall>x\<in>set [(memo 8 1, delivery 7 3), (memo 9 2, delivery 2 4)].
      \<not> matchesFilter 2 [3] x"
    by (simp add: matchesFilter_def delivery_def mpl_any_source_def)
  have hit: "matchesFilter 2 [3] (memo 6 3, delivery 2 3)"
    by (simp add: matchesFilter_def delivery_def)
  have "fetchFromBuffer ?p 2 [3] =
      (?p\<lparr>messageBuffer := [(memo 8 1, delivery 7 3), (memo 9 2, delivery 2 4)] @ []\<rparr>,
       Some (memo 6 3, delivery 2 3))"
    using buffer_store_fetch [where p = ?p and src = 2 and tags = "[3]"
        and xs = "[(memo 8 1, delivery 7 3), (memo 9 2, delivery 2 4)]"
        and e = "(memo 6 3, delivery 2 3)" and ys = "[]"] buf before hit
    by blast
  then have a: "fetchFromBuffer ?p 2 [3] =
      (proc5\<lparr>messageBuffer := [(memo 8 1, delivery 7 3), (memo 9 2, delivery 2 4)]\<rparr>,
       Some (memo 6 3, delivery 2 3))"
    by simp
  have none: "\<forall>x\<in>set (messageBuffer ?p). \<not> matchesFilter 9 [3, 4] x"
    by (simp add: matchesFilter_def delivery_def mpl_any_source_def)
  have b: "fetchFromBuffer ?p 9 [3, 4] = (?p, None)"
    using buffer_store_fetch [where p = ?p and src = 9 and tags = "[3, 4]"] none
    by blast
  have "distinct (messageBuffer ?p)"
    by (simp add: memo_def std_max_def delivery_def)
  then have "(memo 6 3, delivery 2 3) \<notin>
      set ([(memo 8 1, delivery 7 3), (memo 9 2, delivery 2 4)] @ [])"
    using buffer_store_fetch [where p = ?p and src = 2 and tags = "[3]"
        and xs = "[(memo 8 1, delivery 7 3), (memo 9 2, delivery 2 4)]"
        and e = "(memo 6 3, delivery 2 3)" and ys = "[]"] buf before hit
    by blast
  then have c: "(memo 6 3, delivery 2 3) \<notin>
      set [(memo 8 1, delivery 7 3), (memo 9 2, delivery 2 4)]"
    by simp
  from a b c show ?thesis
    by blast
qed

text \<open>
  C7. \<^verbatim>\<open>receive\<close> consults the buffer first. On a hit the destination is the
  buffered message, the entry is gone from the buffer and the transport is not called;
  on a miss the transport is asked once for \<open>(src, t)\<close> and the destination is what it
  delivers. On both paths the clock becomes the maximum of the old clock and the
  message's timestamp, plus one, once. So a message taken from the buffer and the same
  message delivered by the transport to a process at the same clock give the same
  clock, the same destination and the same status.
\<close>

theorem receive_buffer_first:
  "(messageBuffer p = xs @ (m, st) # ys \<and> (\<forall>x\<in>set xs. \<not> matchesFilter src [t] x)
      \<and> matchesFilter src [t] (m, st) \<longrightarrow>
      receive p d inc src t =
        (p\<lparr>messageBuffer := xs @ ys,
           lamportClock := std_max (lamportClock p) (timestamp m) + 1\<rparr>, m, st))
   \<and> ((\<forall>x\<in>set (messageBuffer q). \<not> matchesFilter src [t] x) \<longrightarrow>
      receive q d' (m, st) src t =
        (q\<lparr>communicator := communicator q @ [Recv src t],
           lamportClock := std_max (lamportClock q) (timestamp m) + 1\<rparr>, m, st))
   \<and> (messageBuffer p = xs @ (m, st) # ys \<and> (\<forall>x\<in>set xs. \<not> matchesFilter src [t] x)
      \<and> matchesFilter src [t] (m, st)
      \<and> (\<forall>x\<in>set (messageBuffer q). \<not> matchesFilter src [t] x)
      \<and> lamportClock q = lamportClock p \<longrightarrow>
      lamportClock (fst (receive p d inc src t)) =
        lamportClock (fst (receive q d' (m, st) src t))
      \<and> snd (receive p d inc src t) = snd (receive q d' (m, st) src t))"
proof (intro conjI impI)
  assume "messageBuffer p = xs @ (m, st) # ys \<and> (\<forall>x\<in>set xs. \<not> matchesFilter src [t] x)
      \<and> matchesFilter src [t] (m, st)"
  then show "receive p d inc src t =
        (p\<lparr>messageBuffer := xs @ ys,
           lamportClock := std_max (lamportClock p) (timestamp m) + 1\<rparr>, m, st)"
    by (simp add: receive_hit)
next
  assume "\<forall>x\<in>set (messageBuffer q). \<not> matchesFilter src [t] x"
  then show "receive q d' (m, st) src t =
        (q\<lparr>communicator := communicator q @ [Recv src t],
           lamportClock := std_max (lamportClock q) (timestamp m) + 1\<rparr>, m, st)"
    by (rule receive_miss)
next
  assume h: "messageBuffer p = xs @ (m, st) # ys \<and> (\<forall>x\<in>set xs. \<not> matchesFilter src [t] x)
      \<and> matchesFilter src [t] (m, st)
      \<and> (\<forall>x\<in>set (messageBuffer q). \<not> matchesFilter src [t] x)
      \<and> lamportClock q = lamportClock p"
  then have hit: "receive p d inc src t =
        (p\<lparr>messageBuffer := xs @ ys,
           lamportClock := std_max (lamportClock p) (timestamp m) + 1\<rparr>, m, st)"
    by (simp add: receive_hit)
  from h have miss: "receive q d' (m, st) src t =
        (q\<lparr>communicator := communicator q @ [Recv src t],
           lamportClock := std_max (lamportClock q) (timestamp m) + 1\<rparr>, m, st)"
    by (simp add: receive_miss)
  from h show "lamportClock (fst (receive p d inc src t)) =
        lamportClock (fst (receive q d' (m, st) src t))"
    by (simp add: hit miss)
  show "snd (receive p d inc src t) = snd (receive q d' (m, st) src t)"
    by (simp add: hit miss)
qed

text \<open>
  The message stamped 9 from rank 2 with tag 3, once waiting in the buffer of the
  process of rank 5 and once delivered by the transport: the clock goes from 4 to 10
  and the destination is that message both times.
\<close>

theorem receive_buffer_first_witness:
  "receive (proc5\<lparr>messageBuffer := [(memo 8 1, delivery 7 3), (memo 9 2, delivery 2 3)]\<rparr>)
     (memo 0 0) (memo 1 1, delivery 2 3) 2 3 =
     (proc5\<lparr>messageBuffer := [(memo 8 1, delivery 7 3)], lamportClock := 10\<rparr>,
      memo 9 2, delivery 2 3)
   \<and> receive proc5 (memo 0 0) (memo 9 2, delivery 2 3) 2 3 =
     (proc5\<lparr>communicator := [Recv 2 3], lamportClock := 10\<rparr>, memo 9 2, delivery 2 3)
   \<and> snd (receive
            (proc5\<lparr>messageBuffer := [(memo 8 1, delivery 7 3), (memo 9 2, delivery 2 3)]\<rparr>)
            (memo 0 0) (memo 1 1, delivery 2 3) 2 3) =
       snd (receive proc5 (memo 0 0) (memo 9 2, delivery 2 3) 2 3)"
proof -
  let ?p = "proc5\<lparr>messageBuffer := [(memo 8 1, delivery 7 3), (memo 9 2, delivery 2 3)]\<rparr>"
  have buf: "messageBuffer ?p = [(memo 8 1, delivery 7 3)] @ (memo 9 2, delivery 2 3) # []"
    by simp
  have before: "\<forall>x\<in>set [(memo 8 1, delivery 7 3)]. \<not> matchesFilter 2 [3] x"
    by (simp add: matchesFilter_def delivery_def mpl_any_source_def)
  have hit: "matchesFilter 2 [3] (memo 9 2, delivery 2 3)"
    by (simp add: matchesFilter_def delivery_def)
  have none: "\<forall>x\<in>set (messageBuffer proc5). \<not> matchesFilter 2 [3] x"
    by (simp add: proc5_def)
  note inst = receive_buffer_first [where p = ?p and q = proc5 and src = 2 and t = 3
      and xs = "[(memo 8 1, delivery 7 3)]" and m = "memo 9 2" and st = "delivery 2 3"
      and ys = "[]" and d = "memo 0 0" and d' = "memo 0 0" and inc = "(memo 1 1, delivery 2 3)"]
  have "receive ?p (memo 0 0) (memo 1 1, delivery 2 3) 2 3 =
      (?p\<lparr>messageBuffer := [(memo 8 1, delivery 7 3)] @ [],
          lamportClock := std_max (lamportClock ?p) (timestamp (memo 9 2)) + 1\<rparr>,
       memo 9 2, delivery 2 3)"
    using inst buf before hit by blast
  then have a: "receive ?p (memo 0 0) (memo 1 1, delivery 2 3) 2 3 =
      (proc5\<lparr>messageBuffer := [(memo 8 1, delivery 7 3)], lamportClock := 10\<rparr>,
       memo 9 2, delivery 2 3)"
    by (simp add: proc5_def memo_def std_max_def)
  have "receive proc5 (memo 0 0) (memo 9 2, delivery 2 3) 2 3 =
      (proc5\<lparr>communicator := communicator proc5 @ [Recv 2 3],
             lamportClock := std_max (lamportClock proc5) (timestamp (memo 9 2)) + 1\<rparr>,
       memo 9 2, delivery 2 3)"
    using inst none by blast
  then have b: "receive proc5 (memo 0 0) (memo 9 2, delivery 2 3) 2 3 =
      (proc5\<lparr>communicator := [Recv 2 3], lamportClock := 10\<rparr>, memo 9 2, delivery 2 3)"
    by (simp add: proc5_def memo_def std_max_def)
  have same: "lamportClock proc5 = lamportClock ?p"
    by simp
  have c: "snd (receive ?p (memo 0 0) (memo 1 1, delivery 2 3) 2 3) =
      snd (receive proc5 (memo 0 0) (memo 9 2, delivery 2 3) 2 3)"
    using inst buf before hit none same by blast
  from a b c show ?thesis
    by blast
qed

section \<open>Claims about multi-tag dispatch\<close>

lemma dispatch_handled:
  "messageHandlers (tag st) = Some h \<Longrightarrow>
     receiveMultiTagHandle p (m, st) src t messageHandlers =
       (h m st (p\<lparr>communicator := communicator p @ [Recv src t],
                  lamportClock := std_max (lamportClock p) (timestamp m) + 1\<rparr>), True)"
  by (simp add: receiveMultiTagHandle_def getTimestamp_def)

lemma dispatch_buffered:
  "messageHandlers (tag st) = None \<Longrightarrow>
     receiveMultiTagHandle p (m, st) src t messageHandlers =
       (p\<lparr>communicator := communicator p @ [Recv src t],
          messageBuffer := messageBuffer p @ [(m, st)]\<rparr>, False)"
  by (simp add: receiveMultiTagHandle_def storeInBuffer_def)

lemma matchesFilter_own: "matchesFilter (source st) [tag st] (m, st)"
  by (simp add: matchesFilter_def)

lemma buffered_then_received:
  assumes "\<forall>x\<in>set (messageBuffer p). \<not> matchesFilter (source st) [tag st] x"
  shows "receive (p\<lparr>communicator := c, messageBuffer := messageBuffer p @ [(m, st)]\<rparr>)
           d inc (source st) (tag st) =
         (p\<lparr>communicator := c, lamportClock := std_max (lamportClock p) (timestamp m) + 1\<rparr>,
          m, st)"
proof -
  let ?p = "p\<lparr>communicator := c, messageBuffer := messageBuffer p @ [(m, st)]\<rparr>"
  have "messageBuffer ?p = messageBuffer p @ (m, st) # []"
    by simp
  then have "receive ?p d inc (source st) (tag st) =
      (?p\<lparr>messageBuffer := messageBuffer p @ [],
          lamportClock := std_max (lamportClock ?p) (timestamp m) + 1\<rparr>, m, st)"
    using assms matchesFilter_own by (rule receive_hit)
  then show ?thesis
    by simp
qed

text \<open>
  C5. One dispatch step receives one message from the transport. If the handler table
  has an entry for the tag the message arrived with, the clock becomes the maximum of
  the clock and the message's timestamp, plus one, the handler is applied once, to the
  message and its status, the buffer it finds is the buffer from before the step, and
  the step returns \<^verbatim>\<open>true\<close>. If the table has no entry, the message and its status
  are appended to the buffer and the step returns \<^verbatim>\<open>false\<close>; a typed
  \<^verbatim>\<open>receive\<close> for that source and tag then takes the message from the buffer (no
  earlier buffered entry matching) without calling the transport.
\<close>

theorem dispatch_routes_by_handler:
  "(messageHandlers (tag st) = Some h \<longrightarrow>
      receiveMultiTagHandle p (m, st) src t messageHandlers =
        (h m st (p\<lparr>communicator := communicator p @ [Recv src t],
                   lamportClock := std_max (lamportClock p) (timestamp m) + 1\<rparr>), True)
      \<and> messageBuffer (p\<lparr>communicator := communicator p @ [Recv src t],
                          lamportClock := std_max (lamportClock p) (timestamp m) + 1\<rparr>) =
          messageBuffer p)
   \<and> (messageHandlers (tag st) = None \<longrightarrow>
      receiveMultiTagHandle p (m, st) src t messageHandlers =
        (p\<lparr>communicator := communicator p @ [Recv src t],
           messageBuffer := messageBuffer p @ [(m, st)]\<rparr>, False)
      \<and> ((\<forall>x\<in>set (messageBuffer p). \<not> matchesFilter (source st) [tag st] x) \<longrightarrow>
           receive (fst (receiveMultiTagHandle p (m, st) src t messageHandlers))
             d inc (source st) (tag st) =
           (p\<lparr>communicator := communicator p @ [Recv src t],
              lamportClock := std_max (lamportClock p) (timestamp m) + 1\<rparr>, m, st)))"
proof (intro conjI impI)
  assume "messageHandlers (tag st) = Some h"
  then show "receiveMultiTagHandle p (m, st) src t messageHandlers =
        (h m st (p\<lparr>communicator := communicator p @ [Recv src t],
                   lamportClock := std_max (lamportClock p) (timestamp m) + 1\<rparr>), True)"
    by (rule dispatch_handled)
next
  show "messageBuffer (p\<lparr>communicator := communicator p @ [Recv src t],
                          lamportClock := std_max (lamportClock p) (timestamp m) + 1\<rparr>) =
          messageBuffer p"
    by simp
next
  assume "messageHandlers (tag st) = None"
  then show "receiveMultiTagHandle p (m, st) src t messageHandlers =
        (p\<lparr>communicator := communicator p @ [Recv src t],
           messageBuffer := messageBuffer p @ [(m, st)]\<rparr>, False)"
    by (rule dispatch_buffered)
next
  assume "messageHandlers (tag st) = None"
    and "\<forall>x\<in>set (messageBuffer p). \<not> matchesFilter (source st) [tag st] x"
  then show "receive (fst (receiveMultiTagHandle p (m, st) src t messageHandlers))
             d inc (source st) (tag st) =
           (p\<lparr>communicator := communicator p @ [Recv src t],
              lamportClock := std_max (lamportClock p) (timestamp m) + 1\<rparr>, m, st)"
    by (simp add: dispatch_buffered buffered_then_received)
qed

text \<open>
  A handler for tag 3 and none for tag 4, at the counting process of rank 5 and
  clock 4. A message stamped 9 with tag 3 runs the handler once (its counter shows 1),
  at clock 10, and the buffer stays empty. The same message with tag 4 is put into the
  buffer and no handler runs; the typed receive for rank 2 and tag 4 then returns it.
\<close>

theorem dispatch_routes_by_handler_witness:
  "receiveMultiTagHandle counting5 (memo 9 2, delivery 2 3) 2 0 [3 \<mapsto> countHandler] =
     (counting5\<lparr>communicator := [Recv 2 0], lamportClock := 10, handled := 1\<rparr>, True)
   \<and> receiveMultiTagHandle counting5 (memo 9 2, delivery 2 4) 2 0 [3 \<mapsto> countHandler] =
     (counting5\<lparr>communicator := [Recv 2 0],
                 messageBuffer := [(memo 9 2, delivery 2 4)]\<rparr>, False)
   \<and> receive
       (fst (receiveMultiTagHandle counting5 (memo 9 2, delivery 2 4) 2 0
               [3 \<mapsto> countHandler]))
       (memo 0 0) (memo 1 1, delivery 2 4) 2 4 =
     (counting5\<lparr>communicator := [Recv 2 0], lamportClock := 10\<rparr>, memo 9 2, delivery 2 4)"
proof -
  have some: "[3 \<mapsto> countHandler] (tag (delivery 2 3)) = Some countHandler"
    by (simp add: delivery_def)
  have none: "[3 \<mapsto> countHandler] (tag (delivery 2 4)) = None"
    by (simp add: delivery_def)
  have empty: "\<forall>x\<in>set (messageBuffer counting5).
      \<not> matchesFilter (source (delivery 2 4)) [tag (delivery 2 4)] x"
    by (simp add: counting5_def)
  have src: "source (delivery 2 4) = 2" and tg: "tag (delivery 2 4) = 4"
    by (simp_all add: delivery_def)
  have "receiveMultiTagHandle counting5 (memo 9 2, delivery 2 3) 2 0 [3 \<mapsto> countHandler] =
      (countHandler (memo 9 2) (delivery 2 3)
         (counting5\<lparr>communicator := communicator counting5 @ [Recv 2 0],
            lamportClock := std_max (lamportClock counting5) (timestamp (memo 9 2)) + 1\<rparr>), True)"
    using dispatch_routes_by_handler [where messageHandlers = "[3 \<mapsto> countHandler]"
        and st = "delivery 2 3" and h = countHandler and p = counting5 and m = "memo 9 2"
        and src = 2 and t = 0] some
    by blast
  then have a: "receiveMultiTagHandle counting5 (memo 9 2, delivery 2 3) 2 0
        [3 \<mapsto> countHandler] =
      (counting5\<lparr>communicator := [Recv 2 0], lamportClock := 10, handled := 1\<rparr>, True)"
    by (simp add: countHandler_def counting5_def memo_def std_max_def)
  note inst = dispatch_routes_by_handler [where messageHandlers = "[3 \<mapsto> countHandler]"
      and st = "delivery 2 4" and p = counting5 and m = "memo 9 2" and src = 2 and t = 0
      and d = "memo 0 0" and inc = "(memo 1 1, delivery 2 4)"]
  have "receiveMultiTagHandle counting5 (memo 9 2, delivery 2 4) 2 0 [3 \<mapsto> countHandler] =
      (counting5\<lparr>communicator := communicator counting5 @ [Recv 2 0],
         messageBuffer := messageBuffer counting5 @ [(memo 9 2, delivery 2 4)]\<rparr>, False)"
    using inst none by blast
  then have b: "receiveMultiTagHandle counting5 (memo 9 2, delivery 2 4) 2 0
        [3 \<mapsto> countHandler] =
      (counting5\<lparr>communicator := [Recv 2 0],
                  messageBuffer := [(memo 9 2, delivery 2 4)]\<rparr>, False)"
    by (simp add: counting5_def)
  have "receive
       (fst (receiveMultiTagHandle counting5 (memo 9 2, delivery 2 4) 2 0
               [3 \<mapsto> countHandler]))
       (memo 0 0) (memo 1 1, delivery 2 4) (source (delivery 2 4)) (tag (delivery 2 4)) =
     (counting5\<lparr>communicator := communicator counting5 @ [Recv 2 0],
        lamportClock := std_max (lamportClock counting5) (timestamp (memo 9 2)) + 1\<rparr>,
      memo 9 2, delivery 2 4)"
    using inst none empty by blast
  then have c: "receive
       (fst (receiveMultiTagHandle counting5 (memo 9 2, delivery 2 4) 2 0
               [3 \<mapsto> countHandler]))
       (memo 0 0) (memo 1 1, delivery 2 4) 2 4 =
     (counting5\<lparr>communicator := [Recv 2 0], lamportClock := 10\<rparr>, memo 9 2, delivery 2 4)"
    unfolding src tg by (simp add: counting5_def memo_def std_max_def)
  from a b c show ?thesis
    by blast
qed

text \<open>
  C10. A dispatch step whose arriving tag has no handler leaves the Lamport clock as it
  was: the message is buffered without being observed. The clock update for that
  message happens when a typed \<^verbatim>\<open>receive\<close> fetches it from the buffer (no earlier
  buffered entry matching the same source and tag): only then does the clock become
  the maximum of the clock and the message's timestamp, plus one.
\<close>

theorem unhandled_dispatch_keeps_clock:
  "messageHandlers (tag st) = None \<Longrightarrow>
     lamportClock (fst (receiveMultiTagHandle p (m, st) src t messageHandlers)) =
       lamportClock p
     \<and> ((\<forall>x\<in>set (messageBuffer p). \<not> matchesFilter (source st) [tag st] x) \<longrightarrow>
          lamportClock
            (fst (receive (fst (receiveMultiTagHandle p (m, st) src t messageHandlers))
                    d inc (source st) (tag st))) =
          std_max (lamportClock p) (timestamp m) + 1
          \<and> fst (snd (receive (fst (receiveMultiTagHandle p (m, st) src t messageHandlers))
                         d inc (source st) (tag st))) = m)"
  by (simp add: dispatch_buffered buffered_then_received)

theorem unhandled_dispatch_keeps_clock_witness:
  "lamportClock
     (fst (receiveMultiTagHandle counting5 (memo 9 2, delivery 2 4) 2 0
             [3 \<mapsto> countHandler])) = 4
   \<and> lamportClock
       (fst (receive
               (fst (receiveMultiTagHandle counting5 (memo 9 2, delivery 2 4) 2 0
                       [3 \<mapsto> countHandler]))
               (memo 0 0) (memo 1 1, delivery 2 4) 2 4)) = 10"
proof -
  have none: "[3 \<mapsto> countHandler] (tag (delivery 2 4)) = None"
    by (simp add: delivery_def)
  have empty: "\<forall>x\<in>set (messageBuffer counting5).
      \<not> matchesFilter (source (delivery 2 4)) [tag (delivery 2 4)] x"
    by (simp add: counting5_def)
  have src: "source (delivery 2 4) = 2" and tg: "tag (delivery 2 4) = 4"
    by (simp_all add: delivery_def)
  note inst = unhandled_dispatch_keeps_clock [where messageHandlers = "[3 \<mapsto> countHandler]"
      and st = "delivery 2 4" and p = counting5 and m = "memo 9 2" and src = 2 and t = 0
      and d = "memo 0 0" and inc = "(memo 1 1, delivery 2 4)", OF none]
  have "lamportClock
     (fst (receiveMultiTagHandle counting5 (memo 9 2, delivery 2 4) 2 0
             [3 \<mapsto> countHandler])) = lamportClock counting5"
    using inst by blast
  then have a: "lamportClock
     (fst (receiveMultiTagHandle counting5 (memo 9 2, delivery 2 4) 2 0
             [3 \<mapsto> countHandler])) = 4"
    by (simp add: counting5_def)
  have "lamportClock
       (fst (receive
               (fst (receiveMultiTagHandle counting5 (memo 9 2, delivery 2 4) 2 0
                       [3 \<mapsto> countHandler]))
               (memo 0 0) (memo 1 1, delivery 2 4) (source (delivery 2 4))
               (tag (delivery 2 4)))) =
       std_max (lamportClock counting5) (timestamp (memo 9 2)) + 1"
    using inst empty by blast
  then have b: "lamportClock
       (fst (receive
               (fst (receiveMultiTagHandle counting5 (memo 9 2, delivery 2 4) 2 0
                       [3 \<mapsto> countHandler]))
               (memo 0 0) (memo 1 1, delivery 2 4) 2 4)) = 10"
    unfolding src tg by (simp add: counting5_def memo_def std_max_def)
  from a b show ?thesis
    by blast
qed

end
